theory Spec2Isabelle
  imports Main "HOL-Library.Sublist" "HOL-Library.AList"
begin

section \<open>Strings of the runtime\<close>

text \<open>
  Header names and values are byte strings (one \<open>char\<close> per byte), as the runtime's
  \<open>Headers\<close> object stores them. The values of the incoming URL's query parameters are
  JavaScript strings of 16-bit code units: they are lists of naturals, so that the result
  of \<open>decodeURIComponent\<close> on a multi-byte escape sequence can be written down.
\<close>

type_synonym ustring = "nat list"

definition ustr :: "string \<Rightarrow> ustring" where
  "ustr s = map of_char s"

fun join :: "string \<Rightarrow> string list \<Rightarrow> string" where
  "join sep [] = []"
| "join sep [x] = x"
| "join sep (x # y # ys) = x @ sep @ join sep (y # ys)"

text \<open>Byte-lowercasing: the letters \<open>A\<close> to \<open>Z\<close> only.\<close>

definition lower_char :: "char \<Rightarrow> char" where
  "lower_char c =
     (case map_of (zip ''ABCDEFGHIJKLMNOPQRSTUVWXYZ'' ''abcdefghijklmnopqrstuvwxyz'') c of
        Some d \<Rightarrow> d
      | None \<Rightarrow> c)"

definition lower :: "string \<Rightarrow> string" where
  "lower s = map lower_char s"

text \<open>\<open>a || b\<close> on a value that is a string or null: null and the empty string are falsy.\<close>

definition or_else :: "string option \<Rightarrow> string \<Rightarrow> string" where
  "or_else a b = (case a of None \<Rightarrow> b | Some v \<Rightarrow> if v = [] then b else v)"

text \<open>
  \<open>key.match(p)\<close> with the five patterns of the handler. None of them has a regular
  expression operator besides the anchor \<open>^\<close>, so a match is a prefix test for the
  anchored patterns and a search for the literal anywhere in the key for \<open>eferer\<close>.
  The result is \<open>True\<close> where \<open>match\<close> returns a match object and \<open>False\<close> where it
  returns null.
\<close>

fun match_anywhere :: "string \<Rightarrow> string \<Rightarrow> bool" where
  "match_anywhere p [] = (p = [])"
| "match_anywhere p (c # cs) = (prefix p (c # cs) \<or> match_anywhere p cs)"

definition match_start :: "string \<Rightarrow> string \<Rightarrow> bool" where
  "match_start p key = prefix p key"

section \<open>The Headers object\<close>

text \<open>
  A \<open>Headers\<close> object is its header list: name/value pairs in the order they were
  appended. Names are compared without regard to ASCII case; \<open>get\<close> joins the values of
  all headers of a name with a comma and a space; \<open>entries\<close> iterates over the lower-case
  names in ascending byte order, with the values of a name combined, except for
  \<open>set-cookie\<close>, whose headers are listed one by one.
\<close>

type_synonym Headers = "(string \<times> string) list"

definition header_values :: "Headers \<Rightarrow> string \<Rightarrow> string list" where
  "header_values hs n = map snd (filter (\<lambda>kv. lower (fst kv) = n) hs)"

definition headers_get :: "Headers \<Rightarrow> string \<Rightarrow> string option" where
  "headers_get hs name =
     (case header_values hs (lower name) of [] \<Rightarrow> None | v # vs \<Rightarrow> Some (join '', '' (v # vs)))"

fun replace_first :: "string \<Rightarrow> string \<Rightarrow> Headers \<Rightarrow> Headers" where
  "replace_first n v [] = []"
| "replace_first n v (kv # hs) =
     (if lower (fst kv) = n then (fst kv, v) # filter (\<lambda>kv'. lower (fst kv') \<noteq> n) hs
      else kv # replace_first n v hs)"

text \<open>
  \<open>set\<close> overwrites the first header of that name and removes the others, or appends.
  Every value the handler passes to \<open>set\<close> is a stored header value, a constant, the
  origin of a URL, a JSON text or a list of header names: \<open>set\<close> neither alters
  (by stripping white space) nor refuses any of them, so it is total here.
\<close>

definition headers_set :: "Headers \<Rightarrow> string \<Rightarrow> string \<Rightarrow> Headers" where
  "headers_set hs name v =
     (if header_values hs (lower name) = [] then hs @ [(name, v)]
      else replace_first (lower name) v hs)"

definition headers_delete :: "Headers \<Rightarrow> string \<Rightarrow> Headers" where
  "headers_delete hs name = filter (\<lambda>kv. lower (fst kv) \<noteq> lower name) hs"

fun name_less :: "string \<Rightarrow> string \<Rightarrow> bool" where
  "name_less [] [] = False"
| "name_less [] (y # ys) = True"
| "name_less (x # xs) [] = False"
| "name_less (x # xs) (y # ys) =
     ((of_char x :: nat) < of_char y \<or> (x = y \<and> name_less xs ys))"

fun insert_name :: "string \<Rightarrow> string list \<Rightarrow> string list" where
  "insert_name n [] = [n]"
| "insert_name n (m # ms) = (if name_less m n then m # insert_name n ms else n # m # ms)"

definition sorted_names :: "Headers \<Rightarrow> string list" where
  "sorted_names hs = foldr insert_name (remdups (map (\<lambda>kv. lower (fst kv)) hs)) []"

definition headers_entries :: "Headers \<Rightarrow> (string \<times> string) list" where
  "headers_entries hs =
     concat (map (\<lambda>n. if n = ''set-cookie'' then map (\<lambda>v. (n, v)) (header_values hs n)
                      else [(n, join '', '' (header_values hs n))])
                 (sorted_names hs))"

section \<open>Plain objects and JSON values\<close>

text \<open>
  A plain object used as a dictionary (\<open>filteredHeaders\<close>, \<open>allResponseHeaders\<close>) is the
  list of its own properties in creation order. The assignment \<open>obj[key] = value\<close>
  overwrites in place or appends; for the key \<open>__proto__\<close> it runs the inherited setter,
  which creates no own property. The own properties are enumerated with the array
  indices first, in ascending order, then the other keys in creation order.
\<close>

type_synonym 'v jsobject = "(string \<times> 'v) list"

definition obj_set :: "string \<Rightarrow> 'v \<Rightarrow> 'v jsobject \<Rightarrow> 'v jsobject" where
  "obj_set k v obj = (if k = ''__proto__'' then obj else AList.update k v obj)"

definition is_digit :: "char \<Rightarrow> bool" where
  "is_digit c = (48 \<le> (of_char c :: nat) \<and> (of_char c :: nat) \<le> 57)"

definition dec_value :: "string \<Rightarrow> nat" where
  "dec_value s = foldl (\<lambda>a c. 10 * a + (of_char c - 48)) 0 s"

text \<open>
  An array index is a decimal numeral without a leading zero whose value is below
  4294967295: it has fewer than ten digits, or ten digits that come before those of
  that bound.
\<close>

definition array_index :: "string \<Rightarrow> nat option" where
  "array_index k =
     (if k \<noteq> [] \<and> list_all is_digit k \<and> (k = ''0'' \<or> hd k \<noteq> CHR ''0'')
         \<and> (length k < 10 \<or> (length k = 10 \<and> name_less k ''4294967295''))
      then Some (dec_value k) else None)"

definition own_entries :: "'v jsobject \<Rightarrow> (string \<times> 'v) list" where
  "own_entries obj =
     sort_key (\<lambda>kv. the (array_index (fst kv))) (filter (\<lambda>kv. array_index (fst kv) \<noteq> None) obj)
     @ filter (\<lambda>kv. array_index (fst kv) = None) obj"

text \<open>
  The values \<open>JSON.parse\<close> returns. A number carries the text that \<open>String(n)\<close> gives for
  it; an object carries its properties in creation order. The strings are those whose code
  units are below 256, the ones a header can hold.
\<close>

datatype jsvalue =
    JNull
  | JBool bool
  | JNum string
  | JStr string
  | JArr "jsvalue list"
  | JObj "(string \<times> jsvalue) list"

definition digit_char :: "nat \<Rightarrow> char" where
  "digit_char n = ''0123456789abcdef'' ! n"

fun show_nat :: "nat \<Rightarrow> string" where
  "show_nat n = (if n < 10 then [digit_char n] else show_nat (n div 10) @ [digit_char (n mod 10)])"

declare show_nat.simps [simp del]

text \<open>
  \<open>Object.entries\<close>: the characters of a string and the elements of an array under their
  indices, the properties of an object, nothing for a boolean or a number. On null it
  raises; the handler calls it behind the test \<open>customHeaders !== null\<close> only.
\<close>

fun Object_entries :: "jsvalue \<Rightarrow> (string \<times> jsvalue) list" where
  "Object_entries (JStr s) = map (\<lambda>(i, c). (show_nat i, JStr [c])) (enumerate 0 s)"
| "Object_entries (JArr xs) = map (\<lambda>(i, x). (show_nat i, x)) (enumerate 0 xs)"
| "Object_entries (JObj ps) = own_entries ps"
| "Object_entries _ = []"

text \<open>
  The conversion of a property value to a header value, \<open>String(v)\<close>. An object that has
  an own property \<open>toString\<close> (never a function after \<open>JSON.parse\<close>) cannot be converted:
  \<open>None\<close> is the TypeError.
\<close>

fun js_toString :: "jsvalue \<Rightarrow> string option" where
  "js_toString JNull = Some ''null''"
| "js_toString (JBool b) = Some (if b then ''true'' else ''false'')"
| "js_toString (JNum s) = Some s"
| "js_toString (JStr s) = Some s"
| "js_toString (JArr xs) =
     map_option (join '','')
       (those (map (\<lambda>x. if x = JNull then Some [] else js_toString x) xs))"
| "js_toString (JObj ps) =
     (if ''toString'' \<in> set (map fst ps) then None else Some ''[object Object]'')"

text \<open>\<open>JSON.stringify\<close> of an object whose property values are strings.\<close>

definition quote_char :: "char \<Rightarrow> string" where
  "quote_char c =
     (let n = (of_char c :: nat) in
      if n = 34 then [CHR 0x5C, CHR 0x22]
      else if n = 92 then [CHR 0x5C, CHR 0x5C]
      else if n = 8 then [CHR 0x5C, CHR ''b'']
      else if n = 9 then [CHR 0x5C, CHR ''t'']
      else if n = 10 then [CHR 0x5C, CHR ''n'']
      else if n = 12 then [CHR 0x5C, CHR ''f'']
      else if n = 13 then [CHR 0x5C, CHR ''r'']
      else if n < 32 then [CHR 0x5C, CHR ''u'', CHR ''0'', CHR ''0'', digit_char (n div 16), digit_char (n mod 16)]
      else [c])"

definition QuoteJSONString :: "string \<Rightarrow> string" where
  "QuoteJSONString s = [CHR 0x22] @ concat (map quote_char s) @ [CHR 0x22]"

definition JSON_stringify :: "string jsobject \<Rightarrow> string" where
  "JSON_stringify obj =
     ''{'' @ join '','' (map (\<lambda>kv. QuoteJSONString (fst kv) @ '':'' @ QuoteJSONString (snd kv)) (own_entries obj)) @ ''}''"

section \<open>URLs, requests and responses\<close>

text \<open>
  A \<open>URL\<close> object as the runtime's parser produced it. \<open>request.url\<close> is the
  serialisation of a URL the runtime parsed already, so \<open>new URL(request.url)\<close> cannot
  fail and the request carries the parsed object. \<open>searchParams\<close> is the list of
  name/value pairs of the query, each already percent-decoded once by the runtime.
\<close>

record URL =
  href :: string
  origin :: string
  hostname :: string
  searchParams :: "(ustring \<times> ustring) list"

definition searchParams_get :: "(ustring \<times> ustring) list \<Rightarrow> ustring \<Rightarrow> ustring option" where
  "searchParams_get ps name = map_option snd (find (\<lambda>kv. fst kv = name) ps)"

datatype body_init = Text string | Buffer string

datatype redirect_mode = Follow | Error | Manual

record IncomingRequestCfProperties =
  country :: "string option"
  colo :: "string option"

text \<open>
  Requests and responses share their headers and body. The field \<open>req_method\<close> is the
  \<open>method\<close> of a request. A body is the text or the bytes it was built from; the body
  of a response of the origin is bytes.
\<close>

record HttpMessage =
  headers :: Headers
  body :: "body_init option"

record Request = HttpMessage +
  req_method :: string
  url :: URL
  redirect :: redirect_mode
  cf :: "IncomingRequestCfProperties option"

record Response = HttpMessage +
  status :: nat
  statusText :: string

record DomainsEnv =
  WHITELISTED_DOMAINS :: "string list option"
  BLACKLISTED_DOMAINS :: "string list option"

datatype error = TypeError | RangeError | FetchFailed

text \<open>
  What the handler calls and this repository does not define: the URL parser
  (\<open>None\<close> where \<open>new URL\<close> raises), \<open>JSON.parse\<close> (\<open>None\<close> where it raises its
  SyntaxError) and the global \<open>fetch\<close>, which returns the origin's response with its body
  read, or fails.
\<close>

record runtime =
  new_URL :: "ustring \<Rightarrow> URL option"
  JSON_parse :: "string \<Rightarrow> jsvalue option"
  global_fetch :: "URL \<Rightarrow> Request \<Rightarrow> error + Response"

text \<open>
  The result of one run of the handler: the calls it made to the global \<open>fetch\<close>, in
  order, and the response it returned or the exception that left it.
\<close>

record outcome =
  calls :: "(URL \<times> Request) list"
  result :: "error + Response"

section \<open>decodeURIComponent\<close>

text \<open>
  The Decode operation of the language standard with an empty set of preserved escapes.
  \<open>None\<close> is the URIError: a percent sign without two hexadecimal digits behind it, or
  escaped octets that are not the UTF-8 encoding of one code point.
\<close>

definition hex_value :: "nat \<Rightarrow> nat option" where
  "hex_value c =
     (if 48 \<le> c \<and> c \<le> 57 then Some (c - 48)
      else if 65 \<le> c \<and> c \<le> 70 then Some (c - 55)
      else if 97 \<le> c \<and> c \<le> 102 then Some (c - 87)
      else None)"

fun escape_at :: "ustring \<Rightarrow> (nat \<times> ustring) option" where
  "escape_at (p # h1 # h2 # rest) =
     (if p = 37 then
        (case hex_value h1 of
           None \<Rightarrow> None
         | Some a \<Rightarrow> (case hex_value h2 of None \<Rightarrow> None | Some b \<Rightarrow> Some (16 * a + b, rest)))
      else None)"
| "escape_at _ = None"

fun continuation_octets :: "nat \<Rightarrow> ustring \<Rightarrow> (nat list \<times> ustring) option" where
  "continuation_octets 0 s = Some ([], s)"
| "continuation_octets (Suc j) s =
     (case escape_at s of
        None \<Rightarrow> None
      | Some (b, rest) \<Rightarrow>
          (case continuation_octets j rest of
             None \<Rightarrow> None
           | Some (bs, rest') \<Rightarrow> Some (b # bs, rest')))"

definition leading_ones :: "nat \<Rightarrow> nat" where
  "leading_ones b =
     (if b < 128 then 0 else if b < 192 then 1 else if b < 224 then 2
      else if b < 240 then 3 else if b < 248 then 4 else 5)"

definition is_continuation :: "nat \<Rightarrow> bool" where
  "is_continuation b = (128 \<le> b \<and> b < 192)"

definition utf8_code_point :: "nat list \<Rightarrow> nat option" where
  "utf8_code_point octets =
     (case octets of
        [b0, b1] \<Rightarrow>
          (let v = (b0 - 192) * 64 + (b1 - 128)
           in if is_continuation b1 \<and> 128 \<le> v then Some v else None)
      | [b0, b1, b2] \<Rightarrow>
          (let v = (b0 - 224) * 4096 + (b1 - 128) * 64 + (b2 - 128)
           in if is_continuation b1 \<and> is_continuation b2 \<and> 2048 \<le> v \<and> \<not> (55296 \<le> v \<and> v \<le> 57343)
              then Some v else None)
      | [b0, b1, b2, b3] \<Rightarrow>
          (let v = (b0 - 240) * 262144 + (b1 - 128) * 4096 + (b2 - 128) * 64 + (b3 - 128)
           in if is_continuation b1 \<and> is_continuation b2 \<and> is_continuation b3
                 \<and> 65536 \<le> v \<and> v \<le> 1114111
              then Some v else None)
      | _ \<Rightarrow> None)"

definition UTF16EncodeCodePoint :: "nat \<Rightarrow> ustring" where
  "UTF16EncodeCodePoint v =
     (if v \<le> 65535 then [v]
      else [55296 + (v - 65536) div 1024, 56320 + (v - 65536) mod 1024])"

function Decode :: "ustring \<Rightarrow> ustring option" where
  "Decode [] = Some []"
| "Decode (c # cs) =
     (if c \<noteq> 37 then map_option ((#) c) (Decode cs)
      else
        (case escape_at (c # cs) of
           None \<Rightarrow> None
         | Some (b, rest) \<Rightarrow>
             if leading_ones b = 0 then map_option ((#) b) (Decode rest)
             else if leading_ones b = 1 \<or> leading_ones b > 4 then None
             else
               (case continuation_octets (leading_ones b - 1) rest of
                  None \<Rightarrow> None
                | Some (bs, rest') \<Rightarrow>
                    (case utf8_code_point (b # bs) of
                       None \<Rightarrow> None
                     | Some v \<Rightarrow> map_option ((@) (UTF16EncodeCodePoint v)) (Decode rest')))))"
  by pat_completeness auto
termination
proof -
  have esc: "length r < length s" if "escape_at s = Some (b, r)" for s b r
    using that by (induction s rule: escape_at.induct) (auto split: if_splits option.splits)
  have cont: "length r \<le> length s" if "continuation_octets j s = Some (bs, r)" for j s bs r
    using that
  proof (induction j arbitrary: s bs r)
    case 0
    then show ?case by simp
  next
    case (Suc j)
    then obtain b rest bs' where e: "escape_at s = Some (b, rest)"
      and c: "continuation_octets j rest = Some (bs', r)"
      by (auto split: option.splits)
    from Suc.IH [OF c] esc [OF e] show ?case by simp
  qed
  show ?thesis
  proof (relation "measure length", goal_cases)
    case 1
    show ?case by simp
  next
    case (2 c cs)
    show ?case by simp
  next
    case (3 c cs p b rest)
    then have "escape_at (c # cs) = Some (b, rest)" by simp
    from esc [OF this] show ?case by simp
  next
    case (4 c cs p b rest q bs rest')
    then have e: "escape_at (c # cs) = Some (b, rest)"
      and k: "continuation_octets (leading_ones b - 1) rest = Some (bs, rest')"
      by simp_all
    from esc [OF e] cont [OF k] show ?case by simp
  qed
qed

definition decodeURIComponent :: "ustring \<Rightarrow> ustring option" where
  "decodeURIComponent s = Decode s"

section \<open>Constructors of the runtime\<close>

text \<open>
  \<open>new Response(body, init)\<close>, with the checks of the Fetch standard: a RangeError for
  a status outside 200 to 599, a TypeError for a status text that is no reason phrase and
  for a body given with a null-body status. A runtime may draw these lines elsewhere
  (for the status 204, 205 or 304 with a body, or for a tab or a delete character in the
  status text); what is proved below needs the checks to pass only for the status 200, 400
  and 403 with the texts \<open>OK\<close>, \<open>Bad Request\<close> and \<open>Forbidden\<close>. A body that is a
  string brings its content type, unless the headers have one.
\<close>

definition reason_phrase :: "string \<Rightarrow> bool" where
  "reason_phrase s =
     list_all (\<lambda>c. (of_char c :: nat) = 9 \<or> (32 \<le> (of_char c :: nat) \<and> (of_char c :: nat) \<noteq> 127)) s"

definition null_body_status :: "nat \<Rightarrow> bool" where
  "null_body_status st = (st = 101 \<or> st = 103 \<or> st = 204 \<or> st = 205 \<or> st = 304)"

definition with_content_type :: "body_init option \<Rightarrow> Headers \<Rightarrow> Headers" where
  "with_content_type b hs =
     (case b of
        Some (Text t) \<Rightarrow>
          if headers_get hs ''content-type'' = None
          then hs @ [(''content-type'', ''text/plain;charset=UTF-8'')] else hs
      | _ \<Rightarrow> hs)"

definition new_Response :: "body_init option \<Rightarrow> Headers \<Rightarrow> nat \<Rightarrow> string \<Rightarrow> error + Response" where
  "new_Response b hs st txt =
     (if st < 200 \<or> 599 < st then Inl RangeError
      else if \<not> reason_phrase txt then Inl TypeError
      else if b \<noteq> None \<and> null_body_status st then Inl TypeError
      else Inr \<lparr>headers = with_content_type b hs, body = b, status = st, statusText = txt\<rparr>)"

text \<open>
  \<open>new Request(request, {redirect: 'follow', headers: obj})\<close>: the properties of \<open>obj\<close>
  are converted to strings and appended to an empty header list. White space around a
  value is stripped; a name that is no token and a value with a NUL, a line feed or a
  carriage return raise a TypeError. These are the checks of the Fetch standard; a runtime
  may accept more (an empty name), and then builds a request where this model has the
  TypeError.
\<close>

definition http_whitespace :: "char \<Rightarrow> bool" where
  "http_whitespace c = (c \<in> set [CHR 0x09, CHR 0x0A, CHR 0x0D, CHR 0x20])"

definition normalize_value :: "string \<Rightarrow> string" where
  "normalize_value v = rev (dropWhile http_whitespace (rev (dropWhile http_whitespace v)))"

definition token_char :: "char \<Rightarrow> bool" where
  "token_char c =
     (c \<in> set ''!#$%&'*+-.^_`|~0123456789abcdefghijklmnopqrstuvwxyzABCDEFGHIJKLMNOPQRSTUVWXYZ'')"

definition valid_header_name :: "string \<Rightarrow> bool" where
  "valid_header_name n = (n \<noteq> [] \<and> list_all token_char n)"

definition valid_header_value :: "string \<Rightarrow> bool" where
  "valid_header_value v = list_all (\<lambda>c. c \<notin> set [CHR 0x00, CHR 0x0A, CHR 0x0D]) v"

definition headers_of_record :: "jsvalue jsobject \<Rightarrow> error + Headers" where
  "headers_of_record obj =
     (case those (map (\<lambda>kv. map_option (Pair (fst kv)) (js_toString (snd kv))) (own_entries obj)) of
        None \<Rightarrow> Inl TypeError
      | Some kvs \<Rightarrow>
          (let hs = map (\<lambda>kv. (fst kv, normalize_value (snd kv))) kvs
           in if list_all (\<lambda>kv. valid_header_name (fst kv) \<and> valid_header_value (snd kv)) hs
              then Inr hs else Inl TypeError))"

definition new_Request :: "Request \<Rightarrow> jsvalue jsobject \<Rightarrow> error + Request" where
  "new_Request request obj =
     (case headers_of_record obj of
        Inl e \<Rightarrow> Inl e
      | Inr hs \<Rightarrow> Inr (request\<lparr>headers := hs, redirect := Follow\<rparr>))"

text \<open>\<open>response.arrayBuffer()\<close>: the bytes of the body, none for a null body.\<close>

definition utf8_encode_char :: "char \<Rightarrow> string" where
  "utf8_encode_char c =
     (let n = (of_char c :: nat)
      in if n < 128 then [c] else [char_of (192 + n div 64), char_of (128 + n mod 64)])"

definition arrayBuffer :: "Response \<Rightarrow> string" where
  "arrayBuffer r =
     (case body r of
        None \<Rightarrow> []
      | Some (Buffer b) \<Rightarrow> b
      | Some (Text t) \<Rightarrow> concat (map utf8_encode_char t))"

section \<open>The access policy (index.ts, lines 46 to 56)\<close>

definition isAllowedTarget :: "URL \<Rightarrow> DomainsEnv \<Rightarrow> bool" where
  "isAllowedTarget u env =
     (if (case BLACKLISTED_DOMAINS env of None \<Rightarrow> False | Some bl \<Rightarrow> hostname u \<in> set bl) then False
      else if (case WHITELISTED_DOMAINS env of None \<Rightarrow> False | Some wl \<Rightarrow> hostname u \<notin> set wl) then False
      else True)"

section \<open>The CORS headers (index.ts, lines 60 to 78)\<close>

definition setupCORSHeaders :: "Request \<Rightarrow> Headers \<Rightarrow> Headers" where
  "setupCORSHeaders request hdrs =
     (let originUrl = url request;
          isPreflightRequest = (req_method request = ''OPTIONS'');
          h1 = headers_set hdrs ''Access-Control-Allow-Origin''
                 (or_else (headers_get (headers request) ''Origin'') (origin originUrl))
      in if isPreflightRequest then
           (let h2 = headers_set h1 ''Access-Control-Allow-Methods''
                       (or_else (headers_get (headers request) ''access-control-request-method'')
                          ''GET, POST, PUT, DELETE, OPTIONS'');
                requestedHeaders = headers_get (headers request) ''access-control-request-headers'';
                h3 = (case requestedHeaders of
                        None \<Rightarrow> h2
                      | Some v \<Rightarrow> if v = [] then h2 else headers_set h2 ''Access-Control-Allow-Headers'' v)
            in headers_delete h3 ''X-Content-Type-Options'')
         else h1)"

section \<open>The handler (index.ts, lines 83 to 208)\<close>

definition baseResponse :: "URL \<Rightarrow> string" where
  \<open>baseResponse originUrl =
     ''Cloudflare Workers as a Reverse Proxy!\<newline>'' @
     ''(c) 2025 lunaiz. Co., Ltd. (https://lunaiz.com)\<newline>\<newline>'' @
     ''Source:\<newline>https://github.com/lunaiz-corp/cloudflare-reverse-proxy.git\<newline>\<newline>'' @
     ''Usage:\<newline>'' @ origin originUrl @ ''/?url={uri}\<newline>'' @
     ''* Header origin or x-requested-with must be set by the client.\<newline>'' @
     ''* Target URL must be URL-encoded fully (Example: 'url=https%253A%252F%252Fexample.com%252F%253Ftest').\<newline>'' @
     ''* Forbidden headers such as Cookies should be set via "X-Custom-Headers" header as a JSON object string.\<newline>\<newline>'' @
     ''Donate:\<newline>https://github.com/sponsors/lunaiz-corp\<newline>\<newline>'' @
     ''----------------------------\<newline>\<newline>''\<close>

text \<open>Lines 103 to 112: the page for a request without a target.\<close>

definition infoResponse :: "Request \<Rightarrow> error + Response" where
  "infoResponse request =
     (let originHeader = headers_get (headers request) ''Origin'';
          connectingIp = headers_get (headers request) ''CF-Connecting-IP''
      in new_Response
           (Some (Text (baseResponse (url request) @
              ''Connecting Info:\<newline>'' @
              ''* Origin: '' @ or_else originHeader ''Unknown'' @ ''\<newline>'' @
              ''* IP: '' @ or_else connectingIp ''Unknown'' @ ''\<newline>'' @
              ''* Country: '' @ or_else (Option.bind (cf request) country) ''Unknown'' @ ''\<newline>'' @
              ''* Data Centre: '' @ or_else (Option.bind (cf request) colo) ''Unknown'' @ ''\<newline>'' @
              ''* X-Custom-Headers: '' @ or_else (headers_get (headers request) ''X-Custom-Headers'') ''None'')))
           [] 200 ''OK'')"

text \<open>Lines 117 to 123, 131 to 134 and 139 to 143: the three refusals.\<close>

definition multipleParamsResponse :: "Request \<Rightarrow> error + Response" where
  "multipleParamsResponse request =
     new_Response
       (Some (Text (baseResponse (url request) @
          ''** Error: Multiple query parameters detected. Please ensure the target URL is fully URL-encoded.'')))
       [] 400 ''Bad Request''"

definition invalidTargetResponse :: "Request \<Rightarrow> error + Response" where
  "invalidTargetResponse request =
     new_Response
       (Some (Text (baseResponse (url request) @
          ''** Error: Invalid target URL. Please ensure the target URL is fully URL-encoded.'')))
       [] 400 ''Bad Request''"

definition notAllowedResponse :: "Request \<Rightarrow> error + Response" where
  "notAllowedResponse request =
     new_Response
       (Some (Text (baseResponse (url request) @
          ''** Error: Target URL is not allowed by administrator. If this issue persists, please contact administrator for assistance.'')))
       [] 403 ''Forbidden''"

text \<open>
  Lines 147 to 152: \<open>customHeaders\<close> is null without the header, the parsed value where
  \<open>JSON.parse\<close> returns, and still the header's text where it raises: the \<open>catch\<close> block is
  empty.
\<close>

definition customHeaders_of :: "runtime \<Rightarrow> Request \<Rightarrow> jsvalue" where
  "customHeaders_of rt request =
     (case headers_get (headers request) ''X-Custom-Headers'' of
        None \<Rightarrow> JNull
      | Some raw \<Rightarrow> (case JSON_parse rt raw of None \<Rightarrow> JStr raw | Some v \<Rightarrow> v))"

text \<open>Lines 155 to 166: the headers of the request that no pattern matches.\<close>

definition forwardable :: "string \<Rightarrow> bool" where
  "forwardable key =
     (\<not> match_start ''origin'' key \<and>
      \<not> match_anywhere ''eferer'' key \<and>
      \<not> match_start ''cf-'' key \<and>
      \<not> match_start ''x-forw'' key \<and>
      \<not> match_start ''x-custom-headers'' key)"

definition filteredHeaders_of :: "Request \<Rightarrow> jsvalue jsobject" where
  "filteredHeaders_of request =
     foldl (\<lambda>obj kv. if forwardable (fst kv) then obj_set (fst kv) (JStr (snd kv)) obj else obj)
       [] (headers_entries (headers request))"

text \<open>Lines 169 to 173: the entries of \<open>customHeaders\<close> are written over them.\<close>

definition addCustomHeaders :: "jsvalue \<Rightarrow> jsvalue jsobject \<Rightarrow> jsvalue jsobject" where
  "addCustomHeaders customHeaders filteredHeaders =
     (if customHeaders \<noteq> JNull
      then foldl (\<lambda>obj kv. obj_set (fst kv) (snd kv) obj) filteredHeaders (Object_entries customHeaders)
      else filteredHeaders)"

text \<open>Lines 146 to 179: the request that is sent to the target.\<close>

definition outboundRequest :: "runtime \<Rightarrow> Request \<Rightarrow> error + Request" where
  "outboundRequest rt request =
     new_Request request (addCustomHeaders (customHeaders_of rt request) (filteredHeaders_of request))"

text \<open>Lines 183 to 207: the response to the client, from the origin's response.\<close>

definition clientResponse :: "Request \<Rightarrow> Response \<Rightarrow> error + Response" where
  "clientResponse request response =
     (let responseHeaders = setupCORSHeaders request (headers response);
          exposedHeaders = map fst (headers_entries (headers response)) @ [''x-received-headers''];
          allResponseHeaders =
            foldl (\<lambda>obj kv. obj_set (fst kv) (snd kv) obj) [] (headers_entries (headers response));
          responseHeaders' =
            headers_set responseHeaders ''x-received-headers'' (JSON_stringify allResponseHeaders);
          responseHeaders'' =
            headers_set responseHeaders' ''Access-Control-Expose-Headers'' (join '','' exposedHeaders);
          isPreflightRequest = (req_method request = ''OPTIONS'');
          responseBody = (if isPreflightRequest then None else Some (Buffer (arrayBuffer response)))
      in new_Response responseBody responseHeaders''
           (if isPreflightRequest then 200 else status response)
           (if isPreflightRequest then ''OK'' else statusText response))"

text \<open>
  Lines 146 to 207: everything behind the access check. An exception of \<open>new Request\<close>
  leaves the handler before the call, one of the global \<open>fetch\<close> after it.
\<close>

definition forward :: "runtime \<Rightarrow> Request \<Rightarrow> URL \<Rightarrow> outcome" where
  "forward rt request targetUrl =
     (case outboundRequest rt request of
        Inl e \<Rightarrow> \<lparr>calls = [], result = Inl e\<rparr>
      | Inr newRequest \<Rightarrow>
          (case global_fetch rt targetUrl newRequest of
             Inl e \<Rightarrow> \<lparr>calls = [(targetUrl, newRequest)], result = Inl e\<rparr>
           | Inr response \<Rightarrow>
               \<lparr>calls = [(targetUrl, newRequest)], result = clientResponse request response\<rparr>))"

definition fetch :: "runtime \<Rightarrow> DomainsEnv \<Rightarrow> Request \<Rightarrow> outcome" where
  "fetch rt env request =
     (let originUrl = url request;
          targetUrlParam = searchParams_get (searchParams originUrl) (ustr ''url'')
      in case targetUrlParam of
           None \<Rightarrow> \<lparr>calls = [], result = infoResponse request\<rparr>
         | Some param \<Rightarrow>
             if param = [] then \<lparr>calls = [], result = infoResponse request\<rparr>
             else if length (searchParams originUrl) > 1
               then \<lparr>calls = [], result = multipleParamsResponse request\<rparr>
             else
               (case Option.bind (decodeURIComponent param) (new_URL rt) of
                  None \<Rightarrow> \<lparr>calls = [], result = invalidTargetResponse request\<rparr>
                | Some targetUrl \<Rightarrow>
                    if \<not> isAllowedTarget targetUrl env
                    then \<lparr>calls = [], result = notAllowedResponse request\<rparr>
                    else forward rt request targetUrl))"

section \<open>Observations on an outcome\<close>

definition responseStatus :: "outcome \<Rightarrow> nat option" where
  "responseStatus out = (case result out of Inl e \<Rightarrow> None | Inr r \<Rightarrow> Some (status r))"

definition responseHeader :: "outcome \<Rightarrow> string \<Rightarrow> string option" where
  "responseHeader out name = (case result out of Inl e \<Rightarrow> None | Inr r \<Rightarrow> headers_get (headers r) name)"

text \<open>
  A percent sign that is not followed by two hexadecimal digits, somewhere in a string.
\<close>

definition hex_digit :: "nat \<Rightarrow> bool" where
  "hex_digit c = (c \<in> set (ustr ''0123456789abcdefABCDEF''))"

fun malformed_escape :: "ustring \<Rightarrow> bool" where
  "malformed_escape [] = False"
| "malformed_escape (c # cs) =
     ((c = 37 \<and> \<not> (case cs of h1 # h2 # rest \<Rightarrow> hex_digit h1 \<and> hex_digit h2 | _ \<Rightarrow> False))
      \<or> malformed_escape cs)"

text \<open>
  The percent-encoding that the usage text asks of the caller, for a string of ASCII code
  units (\<open>encodeURIComponent\<close>): letters, digits and \<open>-_.!~*'()\<close> stand for themselves,
  every other code unit is written as a percent sign and two upper-case hexadecimal digits.
\<close>

definition upper_hex :: "nat \<Rightarrow> nat" where
  "upper_hex n = (if n < 10 then 48 + n else 55 + n)"

definition unescaped :: "nat \<Rightarrow> bool" where
  "unescaped c =
     (c \<in> set (ustr ''ABCDEFGHIJKLMNOPQRSTUVWXYZabcdefghijklmnopqrstuvwxyz0123456789-_.!~*'()''))"

definition encode_unit :: "nat \<Rightarrow> ustring" where
  "encode_unit c = (if unescaped c then [c] else [37, upper_hex (c div 16), upper_hex (c mod 16)])"

definition encodeURIComponent_ascii :: "ustring \<Rightarrow> ustring" where
  "encodeURIComponent_ascii s = concat (map encode_unit s)"


section \<open>A sample deployment\<close>

text \<open>
  One concrete runtime, for running the handler on explicit requests: its URL parser
  knows two absolute URLs, its \<open>JSON.parse\<close> one object and the four-byte text \<open>{bad\<close>,
  which is no JSON, and its origin answers every call with two cookies and one more header.
\<close>

definition example_target :: URL where
  "example_target =
     \<lparr>href = ''https://example.com/'', origin = ''https://example.com'',
      hostname = ''example.com'', searchParams = []\<rparr>"

definition example_origin_response :: Response where
  "example_origin_response =
     \<lparr>headers = [(''Set-Cookie'', ''a=1''), (''Set-Cookie'', ''b=2''), (''X-Foo'', ''bar'')],
      body = Some (Buffer ''hello''), status = 200, statusText = ''OK''\<rparr>"

definition example_runtime :: runtime where
  \<open>example_runtime =
     \<lparr>new_URL = (\<lambda>s. if s = ustr ''https://example.com/'' \<or> s = ustr ''https://example.com/%zz''
                      then Some example_target else None),
      JSON_parse = (\<lambda>s. if s = ''{"cookie":"a=1"}'' then Some (JObj [(''cookie'', JStr ''a=1'')]) else None),
      global_fetch = (\<lambda>u r. Inr example_origin_response)\<rparr>\<close>

definition example_request :: "string \<Rightarrow> Headers \<Rightarrow> (ustring \<times> ustring) list \<Rightarrow> Request" where
  "example_request m hs ps =
     \<lparr>headers = hs, body = None, req_method = m,
      url = \<lparr>href = ''https://proxy.example/'', origin = ''https://proxy.example'',
             hostname = ''proxy.example'', searchParams = ps\<rparr>,
      redirect = Manual, cf = None\<rparr>"

definition example_query :: "(ustring \<times> ustring) list" where
  "example_query = [(ustr ''url'', ustr ''https%3A%2F%2Fexample.com%2F'')]"


text \<open>The same runtime with a target that cannot be reached.\<close>

definition unreachable_runtime :: runtime where
  "unreachable_runtime = example_runtime\<lparr>global_fetch := (\<lambda>u r. Inl FetchFailed)\<rparr>"

definition no_lists :: DomainsEnv where
  "no_lists = \<lparr>WHITELISTED_DOMAINS = None, BLACKLISTED_DOMAINS = None\<rparr>"

section \<open>The responses the handler builds itself\<close>

lemma reason_phrase_Bad_Request: "reason_phrase ''Bad Request''"
  by (simp add: reason_phrase_def)
lemma reason_phrase_Forbidden: "reason_phrase ''Forbidden''"
  by (simp add: reason_phrase_def)
lemma reason_phrase_OK: "reason_phrase ''OK''"
  by (simp add: reason_phrase_def)

lemma text_response:
  "200 \<le> st \<Longrightarrow> st \<le> 599 \<Longrightarrow> reason_phrase txt \<Longrightarrow> \<not> null_body_status st \<Longrightarrow>
   new_Response (Some (Text t)) [] st txt =
     Inr \<lparr>headers = [(''content-type'', ''text/plain;charset=UTF-8'')], body = Some (Text t),
          status = st, statusText = txt\<rparr>"
  by (simp add: new_Response_def with_content_type_def headers_get_def header_values_def)

lemma infoResponse_status:
  "\<exists>r. infoResponse request = Inr r \<and> status r = 200 \<and> statusText r = ''OK''"
  by (simp add: infoResponse_def Let_def text_response reason_phrase_OK null_body_status_def)

lemma multipleParamsResponse_status:
  "\<exists>r. multipleParamsResponse request = Inr r \<and> status r = 400 \<and> statusText r = ''Bad Request''"
  by (simp add: multipleParamsResponse_def text_response reason_phrase_Bad_Request null_body_status_def)

lemma invalidTargetResponse_status:
  "\<exists>r. invalidTargetResponse request = Inr r \<and> status r = 400 \<and> statusText r = ''Bad Request''"
  by (simp add: invalidTargetResponse_def text_response reason_phrase_Bad_Request null_body_status_def)

lemma notAllowedResponse_status:
  "\<exists>r. notAllowedResponse request = Inr r \<and> status r = 403 \<and> statusText r = ''Forbidden''"
  by (simp add: notAllowedResponse_def text_response reason_phrase_Forbidden null_body_status_def)

text \<open>
  A request resolves to a target when the first \<open>url\<close> parameter is not empty, it is the
  only parameter, it decodes, and the decoded text parses as a URL. The handler then
  consults the access policy and either forwards or refuses.
\<close>

lemma fetch_resolved:
  assumes "searchParams_get (searchParams (url request)) (ustr ''url'') = Some param"
    and "param \<noteq> []"
    and "length (searchParams (url request)) \<le> 1"
    and "decodeURIComponent param = Some decoded"
    and "new_URL rt decoded = Some targetUrl"
  shows "fetch rt env request =
           (if isAllowedTarget targetUrl env then forward rt request targetUrl
            else \<lparr>calls = [], result = notAllowedResponse request\<rparr>)"
  using assms by (simp add: fetch_def Let_def)

text \<open>
  Claim C6. When the target resolves and its hostname is in the configured deny list, the
  handler answers 403 without calling the target, whatever the allow list holds.
\<close>

theorem C6_denied_target_is_403:
  assumes "searchParams_get (searchParams (url request)) (ustr ''url'') = Some param"
    and "param \<noteq> []"
    and "length (searchParams (url request)) \<le> 1"
    and "decodeURIComponent param = Some decoded"
    and "new_URL rt decoded = Some targetUrl"
    and "BLACKLISTED_DOMAINS env = Some deny"
    and "hostname targetUrl \<in> set deny"
  shows "responseStatus (fetch rt env request) = Some 403 \<and> calls (fetch rt env request) = []"
proof -
  have "\<not> isAllowedTarget targetUrl env"
    using assms(6,7) by (simp add: isAllowedTarget_def)
  then have "fetch rt env request = \<lparr>calls = [], result = notAllowedResponse request\<rparr>"
    using fetch_resolved [OF assms(1-5)] by simp
  moreover obtain r where "notAllowedResponse request = Inr r" "status r = 403"
    using notAllowedResponse_status by blast
  ultimately show ?thesis by (simp add: responseStatus_def)
qed

lemma decode_example: "decodeURIComponent (ustr ''https%3A%2F%2Fexample.com%2F'') = Some (ustr ''https://example.com/'')"
  by (simp add: decodeURIComponent_def ustr_def hex_value_def leading_ones_def)

theorem C6_denied_target_is_403_witness:
  "responseStatus (fetch example_runtime
      \<lparr>WHITELISTED_DOMAINS = Some [''example.com''], BLACKLISTED_DOMAINS = Some [''example.com'']\<rparr>
      (example_request ''GET'' [] [(ustr ''url'', ustr ''https%3A%2F%2Fexample.com%2F'')])) = Some 403
   \<and> calls (fetch example_runtime
      \<lparr>WHITELISTED_DOMAINS = Some [''example.com''], BLACKLISTED_DOMAINS = Some [''example.com'']\<rparr>
      (example_request ''GET'' [] [(ustr ''url'', ustr ''https%3A%2F%2Fexample.com%2F'')])) = []"
  by (rule C6_denied_target_is_403 [where param = "ustr ''https%3A%2F%2Fexample.com%2F''"
        and decoded = "ustr ''https://example.com/''" and targetUrl = example_target
        and deny = "[''example.com'']"])
     (simp_all add: example_request_def searchParams_get_def decode_example example_runtime_def
        example_target_def, simp_all add: ustr_def)

text \<open>
  Behind the access check the handler makes at most one call, with the outbound request,
  and answers from its result.
\<close>

lemma forward_calls:
  assumes "outboundRequest rt request = Inr newRequest"
  shows "calls (forward rt request targetUrl) = [(targetUrl, newRequest)]"
    and "result (forward rt request targetUrl) =
           (case global_fetch rt targetUrl newRequest of
              Inl e \<Rightarrow> Inl e
            | Inr response \<Rightarrow> clientResponse request response)"
  using assms by (auto simp: forward_def split: sum.splits)

lemma outboundRequest_keeps:
  assumes "outboundRequest rt request = Inr newRequest"
  shows "req_method newRequest = req_method request" and "redirect newRequest = Follow"
    and "body newRequest = body request"
  using assms by (auto simp: outboundRequest_def new_Request_def split: sum.splits)

lemma example_fetch:
  "fetch example_runtime no_lists (example_request m hs example_query)
     = forward example_runtime (example_request m hs example_query) example_target"
proof -
  have "isAllowedTarget example_target no_lists"
    by (simp add: isAllowedTarget_def no_lists_def)
  then show ?thesis
    by (subst fetch_resolved [where param = "ustr ''https%3A%2F%2Fexample.com%2F''"
          and decoded = "ustr ''https://example.com/''" and targetUrl = example_target])
       (simp_all add: example_request_def example_query_def searchParams_get_def decode_example
          example_runtime_def, simp_all add: ustr_def)
qed

lemma example_outbound_no_headers:
  "outboundRequest example_runtime (example_request m [] ps)
     = Inr ((example_request m [] ps)\<lparr>redirect := Follow\<rparr>)"
  by (simp add: outboundRequest_def customHeaders_of_def filteredHeaders_of_def addCustomHeaders_def
        new_Request_def headers_of_record_def own_entries_def headers_entries_def sorted_names_def
        headers_get_def header_values_def example_request_def)

section \<open>Target resolution and access policy\<close>

text \<open>
  The decision is Allowed exactly when a configured deny list does not hold the hostname
  and a configured allow list holds it.
\<close>

lemma isAllowedTarget_iff:
  "isAllowedTarget u env \<longleftrightarrow>
     (\<forall>deny. BLACKLISTED_DOMAINS env = Some deny \<longrightarrow> hostname u \<notin> set deny) \<and>
     (\<forall>allow. WHITELISTED_DOMAINS env = Some allow \<longrightarrow> hostname u \<in> set allow)"
  by (auto simp: isAllowedTarget_def split: option.splits)

text \<open>
  Claim C3 includes the case of two empty lists among those that are allowed. The test
  \<open>includes(...) === false\<close> tells a configured list from a missing one: an allow list
  that is configured and empty holds no hostname, so every target is refused.
\<close>

theorem C3_empty_allow_list_denies:
  "hostname example_target \<notin> set [] \<and>
   \<not> isAllowedTarget example_target \<lparr>WHITELISTED_DOMAINS = Some [], BLACKLISTED_DOMAINS = Some []\<rparr> \<and>
   responseStatus (fetch example_runtime \<lparr>WHITELISTED_DOMAINS = Some [], BLACKLISTED_DOMAINS = Some []\<rparr>
      (example_request ''GET'' [] [(ustr ''url'', ustr ''https%3A%2F%2Fexample.com%2F'')])) = Some 403"
proof -
  have a: "\<not> isAllowedTarget example_target \<lparr>WHITELISTED_DOMAINS = Some [], BLACKLISTED_DOMAINS = Some []\<rparr>"
    by (simp add: isAllowedTarget_def)
  have "fetch example_runtime \<lparr>WHITELISTED_DOMAINS = Some [], BLACKLISTED_DOMAINS = Some []\<rparr>
      (example_request ''GET'' [] [(ustr ''url'', ustr ''https%3A%2F%2Fexample.com%2F'')])
      = \<lparr>calls = [], result = notAllowedResponse (example_request ''GET'' [] [(ustr ''url'', ustr ''https%3A%2F%2Fexample.com%2F'')])\<rparr>"
    using a
    by (subst fetch_resolved [where param = "ustr ''https%3A%2F%2Fexample.com%2F''"
        and decoded = "ustr ''https://example.com/''" and targetUrl = example_target])
       (simp_all add: example_request_def searchParams_get_def decode_example example_runtime_def, simp_all add: ustr_def)
  moreover obtain r where "notAllowedResponse (example_request ''GET'' [] [(ustr ''url'', ustr ''https%3A%2F%2Fexample.com%2F'')]) = Inr r" "status r = 403"
    using notAllowedResponse_status by blast
  ultimately show ?thesis using a by (simp add: responseStatus_def)
qed

text \<open>
  Claim C4 says 400 for two or more parameters whether or not \<open>url\<close> is among them. The
  handler looks for \<open>url\<close> first: two parameters without it give the page of status 200.
\<close>

theorem C4_two_parameters_without_url_is_200:
  "length (searchParams (url (example_request ''GET'' [] [(ustr ''a'', ustr ''1''), (ustr ''b'', ustr ''2'')]))) = 2 \<and>
   responseStatus (fetch example_runtime no_lists
      (example_request ''GET'' [] [(ustr ''a'', ustr ''1''), (ustr ''b'', ustr ''2'')])) = Some 200"
proof -
  have "searchParams_get [(ustr ''a'', ustr ''1''), (ustr ''b'', ustr ''2'')] (ustr ''url'') = None"
    by (simp add: searchParams_get_def ustr_def)
  then have "fetch example_runtime no_lists (example_request ''GET'' [] [(ustr ''a'', ustr ''1''), (ustr ''b'', ustr ''2'')])
      = \<lparr>calls = [], result = infoResponse (example_request ''GET'' [] [(ustr ''a'', ustr ''1''), (ustr ''b'', ustr ''2'')])\<rparr>"
    by (simp add: fetch_def example_request_def)
  moreover obtain r where "infoResponse (example_request ''GET'' [] [(ustr ''a'', ustr ''1''), (ustr ''b'', ustr ''2'')]) = Inr r" "status r = 200"
    using infoResponse_status by blast
  ultimately show ?thesis by (simp add: responseStatus_def example_request_def)
qed

text \<open>
  Claim C4, amended. With two or more query parameters the handler calls no target. It
  answers 400 when the first parameter named \<open>url\<close> has a value that is not empty, and
  with the page of status 200 when there is no parameter \<open>url\<close> or its value is empty.
\<close>

theorem C4_two_or_more_parameters:
  assumes "2 \<le> length (searchParams (url request))"
  shows "calls (fetch rt env request) = []
       \<and> (\<forall>param. searchParams_get (searchParams (url request)) (ustr ''url'') = Some param \<and> param \<noteq> []
            \<longrightarrow> responseStatus (fetch rt env request) = Some 400
              \<and> result (fetch rt env request) = multipleParamsResponse request)
       \<and> (searchParams_get (searchParams (url request)) (ustr ''url'') = None
            \<or> searchParams_get (searchParams (url request)) (ustr ''url'') = Some []
            \<longrightarrow> responseStatus (fetch rt env request) = Some 200
              \<and> result (fetch rt env request) = infoResponse request)"
proof -
  obtain r1 where r1: "multipleParamsResponse request = Inr r1" "status r1 = 400"
    using multipleParamsResponse_status by blast
  obtain r2 where r2: "infoResponse request = Inr r2" "status r2 = 200"
    using infoResponse_status by blast
  show ?thesis
  proof (cases "searchParams_get (searchParams (url request)) (ustr ''url'')")
    case None
    then have "fetch rt env request = \<lparr>calls = [], result = infoResponse request\<rparr>"
      by (simp add: fetch_def Let_def)
    with None r2 show ?thesis by (simp add: responseStatus_def)
  next
    case (Some param)
    show ?thesis
    proof (cases "param = []")
      case True
      with Some have "fetch rt env request = \<lparr>calls = [], result = infoResponse request\<rparr>"
        by (simp add: fetch_def Let_def)
      with Some True r2 show ?thesis by (simp add: responseStatus_def)
    next
      case False
      with Some assms have "fetch rt env request = \<lparr>calls = [], result = multipleParamsResponse request\<rparr>"
        by (simp add: fetch_def Let_def)
      with Some False r1 show ?thesis by (simp add: responseStatus_def)
    qed
  qed
qed

theorem C4_two_or_more_parameters_witness:
  "responseStatus (fetch example_runtime no_lists
      (example_request ''GET'' [] [(ustr ''url'', ustr ''https://example.com/?a=1''), (ustr ''b'', ustr ''2'')])) = Some 400
   \<and> calls (fetch example_runtime no_lists
      (example_request ''GET'' [] [(ustr ''url'', ustr ''https://example.com/?a=1''), (ustr ''b'', ustr ''2'')])) = []
   \<and> responseStatus (fetch example_runtime no_lists
      (example_request ''GET'' [] [(ustr ''url'', []), (ustr ''b'', ustr ''2'')])) = Some 200
   \<and> calls (fetch example_runtime no_lists
      (example_request ''GET'' [] [(ustr ''url'', []), (ustr ''b'', ustr ''2'')])) = []"
proof -
  let ?A = "example_request ''GET'' [] [(ustr ''url'', ustr ''https://example.com/?a=1''), (ustr ''b'', ustr ''2'')]"
  let ?B = "example_request ''GET'' [] [(ustr ''url'', []), (ustr ''b'', ustr ''2'')]"
  have la: "2 \<le> length (searchParams (url ?A))" and lb: "2 \<le> length (searchParams (url ?B))"
    by (simp_all add: example_request_def)
  have ga: "searchParams_get (searchParams (url ?A)) (ustr ''url'') = Some (ustr ''https://example.com/?a=1'')"
    by (simp add: example_request_def searchParams_get_def)
  have na: "ustr ''https://example.com/?a=1'' \<noteq> []" by (simp add: ustr_def)
  have gb: "searchParams_get (searchParams (url ?B)) (ustr ''url'') = Some []"
    by (simp add: example_request_def searchParams_get_def)
  note a = C4_two_or_more_parameters [OF la, of example_runtime no_lists]
  note b = C4_two_or_more_parameters [OF lb, of example_runtime no_lists]
  have "responseStatus (fetch example_runtime no_lists ?A) = Some 400"
    using a [THEN conjunct2, THEN conjunct1, rule_format, of "ustr ''https://example.com/?a=1''"] ga na
    by blast
  moreover have "responseStatus (fetch example_runtime no_lists ?B) = Some 200"
    using b [THEN conjunct2, THEN conjunct2] gb by blast
  ultimately show ?thesis
    using a [THEN conjunct1] b [THEN conjunct1] by (intro conjI)
qed

text \<open>
  Claim C9. When the \<open>url\<close> parameter is present with the empty string as its value, the
  handler returns the page it returns for a request without any parameter, with status
  200, and calls no target.
\<close>

theorem C9_empty_url_parameter_is_no_target:
  assumes "searchParams_get (searchParams (url request)) (ustr ''url'') = Some []"
  shows "fetch rt env request = \<lparr>calls = [], result = infoResponse request\<rparr>
       \<and> fetch rt env request = fetch rt env (request\<lparr>url := (url request)\<lparr>searchParams := []\<rparr>\<rparr>)
       \<and> responseStatus (fetch rt env request) = Some 200"
proof -
  have a: "fetch rt env request = \<lparr>calls = [], result = infoResponse request\<rparr>"
    using assms by (simp add: fetch_def Let_def)
  have "infoResponse (request\<lparr>url := (url request)\<lparr>searchParams := []\<rparr>\<rparr>) = infoResponse request"
    by (simp add: infoResponse_def baseResponse_def)
  then have b: "fetch rt env (request\<lparr>url := (url request)\<lparr>searchParams := []\<rparr>\<rparr>)
      = \<lparr>calls = [], result = infoResponse request\<rparr>"
    by (simp add: fetch_def Let_def searchParams_get_def)
  obtain r where "infoResponse request = Inr r" "status r = 200"
    using infoResponse_status by blast
  with a b show ?thesis by (simp add: responseStatus_def)
qed

theorem C9_empty_url_parameter_is_no_target_witness:
  "fetch example_runtime no_lists (example_request ''GET'' [] [(ustr ''url'', [])])
     = \<lparr>calls = [], result = infoResponse (example_request ''GET'' [] [(ustr ''url'', [])])\<rparr>
   \<and> fetch example_runtime no_lists (example_request ''GET'' [] [(ustr ''url'', [])])
     = fetch example_runtime no_lists (example_request ''GET'' [] [])
   \<and> responseStatus (fetch example_runtime no_lists (example_request ''GET'' [] [(ustr ''url'', [])])) = Some 200"
proof -
  have h: "searchParams_get (searchParams (url (example_request ''GET'' [] [(ustr ''url'', [])]))) (ustr ''url'') = Some []"
    by (simp add: example_request_def searchParams_get_def)
  have e: "(example_request ''GET'' [] [(ustr ''url'', [])])
             \<lparr>url := (url (example_request ''GET'' [] [(ustr ''url'', [])]))\<lparr>searchParams := []\<rparr>\<rparr>
           = example_request ''GET'' [] []"
    by (simp add: example_request_def)
  show ?thesis
    using C9_empty_url_parameter_is_no_target [OF h, of example_runtime no_lists]
    unfolding e .
qed

section \<open>The second decoding of the target\<close>

lemma hex_value_iff: "hex_value c \<noteq> None \<longleftrightarrow> hex_digit c"
proof
  assume "hex_value c \<noteq> None"
  then have "(48 \<le> c \<and> c \<le> 57) \<or> (65 \<le> c \<and> c \<le> 70) \<or> (97 \<le> c \<and> c \<le> 102)"
    by (auto simp: hex_value_def split: if_splits)
  then have "c = 48 \<or> c = 49 \<or> c = 50 \<or> c = 51 \<or> c = 52 \<or> c = 53 \<or> c = 54 \<or> c = 55 \<or> c = 56 \<or> c = 57
      \<or> c = 65 \<or> c = 66 \<or> c = 67 \<or> c = 68 \<or> c = 69 \<or> c = 70
      \<or> c = 97 \<or> c = 98 \<or> c = 99 \<or> c = 100 \<or> c = 101 \<or> c = 102"
    by arith
  then show "hex_digit c"
    by (auto simp: hex_digit_def ustr_def)
next
  assume "hex_digit c"
  then show "hex_value c \<noteq> None"
    by (auto simp: hex_digit_def ustr_def hex_value_def)
qed

lemma hex_value_percent: "hex_value 37 = None"
  by (simp add: hex_value_def)

lemma escape_at_Some:
  assumes "escape_at s = Some (b, rest)"
  obtains h1 h2 where "s = 37 # h1 # h2 # rest" "hex_digit h1" "hex_digit h2"
proof -
  from assms obtain h1 h2 where s: "s = 37 # h1 # h2 # rest"
    and h: "hex_value h1 \<noteq> None" "hex_value h2 \<noteq> None"
    by (induction s rule: escape_at.induct) (auto split: if_splits option.splits)
  from h have "hex_digit h1" "hex_digit h2" using hex_value_iff by blast+
  with s that show ?thesis by blast
qed

lemma malformed_escape_after_escape:
  assumes "escape_at s = Some (b, rest)" and "malformed_escape s"
  shows "malformed_escape rest"
proof -
  from assms(1) obtain h1 h2 where s: "s = 37 # h1 # h2 # rest" and h: "hex_digit h1" "hex_digit h2"
    by (rule escape_at_Some)
  from h have "h1 \<noteq> 37" "h2 \<noteq> 37"
    using hex_value_iff hex_value_percent by blast+
  with assms(2) s h show ?thesis by simp
qed

lemma malformed_escape_after_continuation:
  "continuation_octets j s = Some (bs, rest) \<Longrightarrow> malformed_escape s \<Longrightarrow> malformed_escape rest"
proof (induction j arbitrary: s bs)
  case 0
  then show ?case by simp
next
  case (Suc j)
  from Suc.prems(1) obtain b mid bs' where e: "escape_at s = Some (b, mid)"
    and c: "continuation_octets j mid = Some (bs', rest)"
    by (auto split: option.splits)
  from malformed_escape_after_escape [OF e Suc.prems(2)] Suc.IH [OF c] show ?case by blast
qed

text \<open>
  The decoding reads the string from left to right and consumes whole escapes only, so it
  comes to every percent sign and fails at the first one that is malformed.
\<close>

lemma Decode_malformed_escape: "malformed_escape s \<Longrightarrow> Decode s = None"
proof (induction s rule: Decode.induct)
  case 1
  then show ?case by simp
next
  case (2 c cs)
  show ?case
  proof (cases "c = 37")
    case False
    with "2.prems" have "malformed_escape cs" by simp
    with "2.IH"(1) False show ?thesis by simp
  next
    case percent: True
    show ?thesis
    proof (cases "escape_at (c # cs)")
      case None
      with percent show ?thesis by simp
    next
      case (Some p)
      obtain b rest where p: "p = (b, rest)" by (cases p)
      with Some have e: "escape_at (c # cs) = Some (b, rest)" by simp
      have m: "malformed_escape rest"
        using malformed_escape_after_escape [OF e "2.prems"] .
      show ?thesis
      proof (cases "leading_ones b = 0")
        case True
        with "2.IH"(2) [OF _ Some p [symmetric] True] percent m e show ?thesis by simp
      next
        case nz: False
        show ?thesis
        proof (cases "leading_ones b = 1 \<or> 4 < leading_ones b")
          case True
          with percent e nz show ?thesis by simp
        next
          case ok: False
          show ?thesis
          proof (cases "continuation_octets (leading_ones b - 1) rest")
            case None
            with percent e nz ok show ?thesis by simp
          next
            case (Some q)
            obtain bs rest' where q: "q = (bs, rest')" by (cases q)
            with Some have k: "continuation_octets (leading_ones b - 1) rest = Some (bs, rest')" by simp
            have m': "malformed_escape rest'"
              using malformed_escape_after_continuation [OF k m] .
            show ?thesis
            proof (cases "utf8_code_point (b # bs)")
              case None
              with percent e nz ok k show ?thesis by simp
            next
              case (Some v)
              have "Decode rest' = None"
                using "2.IH"(3) [OF _ \<open>escape_at (c # cs) = Some p\<close> p [symmetric] nz ok
                    \<open>continuation_octets (leading_ones b - 1) rest = Some q\<close> q [symmetric] Some] percent m'
                by simp
              with percent e nz ok k Some show ?thesis by simp
            qed
          qed
        qed
      qed
    qed
  qed
qed

text \<open>
  Decoding is the inverse of the encoding: an escape of a code unit below 128 becomes that
  code unit, and a code unit that stands for itself is kept.
\<close>

lemma hex_value_upper_hex: "n < 16 \<Longrightarrow> hex_value (upper_hex n) = Some n"
  by (simp add: hex_value_def upper_hex_def)

lemma unescaped_not_percent: "unescaped c \<Longrightarrow> c \<noteq> 37"
  by (auto simp: unescaped_def ustr_def)

lemma Decode_plain: "c \<noteq> 37 \<Longrightarrow> Decode (c # rest) = map_option ((#) c) (Decode rest)"
  by simp

lemma Decode_escape:
  assumes "c < 128"
  shows "Decode (37 # upper_hex (c div 16) # upper_hex (c mod 16) # rest) = map_option ((#) c) (Decode rest)"
proof -
  have "c div 16 < 16" "c mod 16 < 16" using assms by simp_all
  then have "escape_at (37 # upper_hex (c div 16) # upper_hex (c mod 16) # rest) = Some (c, rest)"
    by (simp add: hex_value_upper_hex)
  moreover have "leading_ones c = 0" using assms by (simp add: leading_ones_def)
  ultimately show ?thesis by simp
qed

lemma Decode_encode_unit:
  "c < 128 \<Longrightarrow> Decode (encode_unit c @ rest) = map_option ((#) c) (Decode rest)"
  using Decode_escape [of c rest] unescaped_not_percent [of c]
  by (simp add: encode_unit_def del: Decode.simps) (simp add: Decode_plain)

lemma decode_encoded:
  "list_all (\<lambda>c. c < 128) s \<Longrightarrow> decodeURIComponent (encodeURIComponent_ascii s) = Some s"
  unfolding decodeURIComponent_def encodeURIComponent_ascii_def
  by (induction s) (simp_all add: Decode_encode_unit del: Decode.simps, simp)

text \<open>
  Claim C10. The value of the \<open>url\<close> parameter, which the runtime has percent-decoded
  once, is decoded again by \<open>decodeURIComponent\<close> before the URL is built: the decoding
  undoes a percent-encoding, and it is the decoded text that the URL parser receives, so
  that the answer is 400 where the parser refuses the decoded text and the call goes to the
  URL parsed from it otherwise. So when the value has a percent sign without two
  hexadecimal digits behind it, the second decoding fails and the answer is 400 with no
  call to a target, for every URL parser: also for one that accepts the once-decoded value
  as it stands.
\<close>

theorem C10_target_is_decoded_again:
  assumes "searchParams_get (searchParams (url request)) (ustr ''url'') = Some param"
  shows "(malformed_escape param \<longrightarrow>
            decodeURIComponent param = None
          \<and> responseStatus (fetch rt env request) = Some 400
          \<and> calls (fetch rt env request) = [])
       \<and> (\<forall>s. list_all (\<lambda>c. c < 128) s \<longrightarrow> decodeURIComponent (encodeURIComponent_ascii s) = Some s)
       \<and> (\<forall>decoded. param \<noteq> [] \<and> length (searchParams (url request)) \<le> 1
              \<and> decodeURIComponent param = Some decoded \<longrightarrow>
            (new_URL rt decoded = None \<longrightarrow>
               responseStatus (fetch rt env request) = Some 400 \<and> calls (fetch rt env request) = [])
          \<and> (\<forall>targetUrl. new_URL rt decoded = Some targetUrl \<longrightarrow>
               fetch rt env request =
                 (if isAllowedTarget targetUrl env then forward rt request targetUrl
                  else \<lparr>calls = [], result = notAllowedResponse request\<rparr>)
             \<and> (\<forall>newRequest. isAllowedTarget targetUrl env \<and> outboundRequest rt request = Inr newRequest
                   \<longrightarrow> calls (fetch rt env request) = [(targetUrl, newRequest)])))"
proof -
  obtain r1 where r1: "multipleParamsResponse request = Inr r1" "status r1 = 400"
    using multipleParamsResponse_status by blast
  obtain r2 where r2: "invalidTargetResponse request = Inr r2" "status r2 = 400"
    using invalidTargetResponse_status by blast
  have one: "decodeURIComponent param = None
          \<and> responseStatus (fetch rt env request) = Some 400
          \<and> calls (fetch rt env request) = []" if m: "malformed_escape param"
  proof -
    have d: "decodeURIComponent param = None"
      using m by (simp add: decodeURIComponent_def Decode_malformed_escape)
    from m have ne: "param \<noteq> []" by auto
    show ?thesis
    proof (cases "length (searchParams (url request)) > 1")
      case True
      with assms ne have "fetch rt env request = \<lparr>calls = [], result = multipleParamsResponse request\<rparr>"
        by (simp add: fetch_def Let_def)
      with d r1 show ?thesis by (simp add: responseStatus_def)
    next
      case False
      with assms ne d have "fetch rt env request = \<lparr>calls = [], result = invalidTargetResponse request\<rparr>"
        by (simp add: fetch_def Let_def)
      with d r2 show ?thesis by (simp add: responseStatus_def)
    qed
  qed
  have two: "decodeURIComponent (encodeURIComponent_ascii s) = Some s" if "list_all (\<lambda>c. c < 128) s" for s
    using that by (rule decode_encoded)
  have refused: "responseStatus (fetch rt env request) = Some 400 \<and> calls (fetch rt env request) = []"
    if "param \<noteq> []" "length (searchParams (url request)) \<le> 1" "decodeURIComponent param = Some decoded"
      "new_URL rt decoded = None" for decoded
  proof -
    from assms that have "fetch rt env request = \<lparr>calls = [], result = invalidTargetResponse request\<rparr>"
      by (simp add: fetch_def Let_def)
    with r2 show ?thesis by (simp add: responseStatus_def)
  qed
  have parsed: "fetch rt env request =
                 (if isAllowedTarget targetUrl env then forward rt request targetUrl
                  else \<lparr>calls = [], result = notAllowedResponse request\<rparr>)
             \<and> (\<forall>newRequest. isAllowedTarget targetUrl env \<and> outboundRequest rt request = Inr newRequest
                   \<longrightarrow> calls (fetch rt env request) = [(targetUrl, newRequest)])"
    if "param \<noteq> []" "length (searchParams (url request)) \<le> 1" "decodeURIComponent param = Some decoded"
      "new_URL rt decoded = Some targetUrl" for decoded targetUrl
  proof -
    note f = fetch_resolved [OF assms that, of env]
    then show ?thesis using forward_calls(1) [of rt request _ targetUrl] by simp
  qed
  from one two refused parsed show ?thesis by blast
qed

lemma encode_usage_example:
  "encodeURIComponent_ascii (ustr ''https://example.com/?test'') = ustr ''https%3A%2F%2Fexample.com%2F%3Ftest''"
  by (simp add: encodeURIComponent_ascii_def encode_unit_def unescaped_def upper_hex_def ustr_def)

theorem C10_target_is_decoded_again_witness:
  "new_URL example_runtime (ustr ''https://example.com/%zz'') = Some example_target
   \<and> decodeURIComponent (ustr ''https://example.com/%zz'') = None
   \<and> responseStatus (fetch example_runtime no_lists
        (example_request ''GET'' [] [(ustr ''url'', ustr ''https://example.com/%zz'')])) = Some 400
   \<and> calls (fetch example_runtime no_lists
        (example_request ''GET'' [] [(ustr ''url'', ustr ''https://example.com/%zz'')])) = []
   \<and> decodeURIComponent (ustr ''https%3A%2F%2Fexample.com%2F%3Ftest'') = Some (ustr ''https://example.com/?test'')
   \<and> new_URL example_runtime (ustr ''https%3A%2F%2Fexample.com%2F'') = None
   \<and> calls (fetch example_runtime no_lists (example_request ''GET'' [] example_query))
       = [(example_target, (example_request ''GET'' [] example_query)\<lparr>redirect := Follow\<rparr>)]
   \<and> responseStatus (fetch example_runtime no_lists
        (example_request ''GET'' [] [(ustr ''url'', ustr ''example'')])) = Some 400"
proof -
  let ?A = "example_request ''GET'' [] [(ustr ''url'', ustr ''https://example.com/%zz'')]"
  let ?C = "example_request ''GET'' [] example_query"
  let ?D = "example_request ''GET'' [] [(ustr ''url'', ustr ''example'')]"
  have ga: "searchParams_get (searchParams (url ?A)) (ustr ''url'') = Some (ustr ''https://example.com/%zz'')"
    by (simp add: example_request_def searchParams_get_def)
  have gc: "searchParams_get (searchParams (url ?C)) (ustr ''url'') = Some (ustr ''https%3A%2F%2Fexample.com%2F'')"
    by (simp add: example_request_def example_query_def searchParams_get_def)
  have gd: "searchParams_get (searchParams (url ?D)) (ustr ''url'') = Some (ustr ''example'')"
    by (simp add: example_request_def searchParams_get_def)
  have m: "malformed_escape (ustr ''https://example.com/%zz'')"
    by (simp add: ustr_def hex_digit_def)
  have n: "new_URL example_runtime (ustr ''https://example.com/%zz'') = Some example_target"
    by (simp add: example_runtime_def)
  have ascii: "list_all (\<lambda>c. c < 128) (ustr ''https://example.com/?test'')"
    by (simp add: ustr_def)
  have nc: "ustr ''https%3A%2F%2Fexample.com%2F'' \<noteq> []" and nd: "ustr ''example'' \<noteq> []"
    by (simp_all add: ustr_def)
  have lc: "length (searchParams (url ?C)) \<le> 1" and ld: "length (searchParams (url ?D)) \<le> 1"
    by (simp_all add: example_request_def example_query_def)
  have once: "new_URL example_runtime (ustr ''https%3A%2F%2Fexample.com%2F'') = None"
    by (simp add: example_runtime_def ustr_def)
  have twice: "new_URL example_runtime (ustr ''https://example.com/'') = Some example_target"
    by (simp add: example_runtime_def)
  have a: "isAllowedTarget example_target no_lists"
    by (simp add: isAllowedTarget_def no_lists_def)
  have dd: "decodeURIComponent (ustr ''example'') = Some (ustr ''example'')"
    by (simp add: decodeURIComponent_def ustr_def)
  have nu: "new_URL example_runtime (ustr ''example'') = None"
    by (simp add: example_runtime_def ustr_def)
  note ta = C10_target_is_decoded_again [OF ga, of example_runtime no_lists]
  note tc = C10_target_is_decoded_again [OF gc, of example_runtime no_lists]
  note td = C10_target_is_decoded_again [OF gd, of example_runtime no_lists]
  have 1: "decodeURIComponent (ustr ''https://example.com/%zz'') = None
          \<and> responseStatus (fetch example_runtime no_lists ?A) = Some 400
          \<and> calls (fetch example_runtime no_lists ?A) = []"
    using ta [THEN conjunct1] m by blast
  have 2: "decodeURIComponent (ustr ''https%3A%2F%2Fexample.com%2F%3Ftest'') = Some (ustr ''https://example.com/?test'')"
    using ta [THEN conjunct2, THEN conjunct1, rule_format, OF ascii] unfolding encode_usage_example .
  have 3: "calls (fetch example_runtime no_lists ?C) = [(example_target, ?C\<lparr>redirect := Follow\<rparr>)]"
    using tc [THEN conjunct2, THEN conjunct2, rule_format, OF conjI [OF nc conjI [OF lc decode_example]],
        THEN conjunct2, rule_format, OF twice, THEN conjunct2, rule_format,
        OF conjI [OF a example_outbound_no_headers]] .
  have 4: "responseStatus (fetch example_runtime no_lists ?D) = Some 400"
    using td [THEN conjunct2, THEN conjunct2, rule_format, OF conjI [OF nd conjI [OF ld dd]],
        THEN conjunct1, rule_format, OF nu] by (rule conjunct1)
  from n 1 2 once 3 4 show ?thesis by (intro conjI) (simp_all)
qed

section \<open>Reading a header after set and delete\<close>

lemma header_values_append:
  "header_values (hs @ hs') n = header_values hs n @ header_values hs' n"
  by (simp add: header_values_def)

lemma header_values_removed:
  "header_values (filter (\<lambda>kv. lower (fst kv) \<noteq> n) hs) m = (if m = n then [] else header_values hs m)"
  by (induction hs) (auto simp: header_values_def)

lemma header_values_replace_first:
  "header_values (replace_first n v hs) m =
     (if m = n then (if header_values hs n = [] then [] else [v]) else header_values hs m)"
proof (induction hs)
  case Nil
  then show ?case by (simp add: header_values_def)
next
  case (Cons kv hs)
  show ?case
  proof (cases "lower (fst kv) = n")
    case True
    have "header_values (filter (\<lambda>kv'. lower (fst kv') \<noteq> n) hs) m = (if m = n then [] else header_values hs m)"
      by (rule header_values_removed)
    with True show ?thesis by (auto simp: header_values_def)
  next
    case False
    with Cons show ?thesis by (auto simp: header_values_def)
  qed
qed

lemma headers_get_set:
  "headers_get (headers_set hs a v) b = (if lower a = lower b then Some v else headers_get hs b)"
proof -
  have one: "header_values [(a, v)] m = (if lower a = m then [v] else [])" for m
    by (simp add: header_values_def)
  have "header_values (headers_set hs a v) (lower b) =
          (if lower a = lower b then [v] else header_values hs (lower b))"
    by (auto simp: headers_set_def header_values_append header_values_replace_first one)
  then show ?thesis by (simp add: headers_get_def)
qed

lemma headers_get_delete:
  "headers_get (headers_delete hs a) b = (if lower a = lower b then None else headers_get hs b)"
  by (simp add: headers_get_def headers_delete_def header_values_removed)

lemma lower_names:
  "lower ''Access-Control-Allow-Origin'' = ''access-control-allow-origin''"
  "lower ''Access-Control-Allow-Methods'' = ''access-control-allow-methods''"
  "lower ''Access-Control-Allow-Headers'' = ''access-control-allow-headers''"
  "lower ''Access-Control-Expose-Headers'' = ''access-control-expose-headers''"
  "lower ''X-Content-Type-Options'' = ''x-content-type-options''"
  "lower ''x-received-headers'' = ''x-received-headers''"
  "lower ''X-Custom-Headers'' = ''x-custom-headers''"
  by (simp_all add: lower_def lower_char_def)

section \<open>Preflight requests\<close>

lemma clientResponse_preflight:
  assumes "req_method request = ''OPTIONS''"
  shows "\<exists>hs. clientResponse request response =
             Inr \<lparr>headers = hs, body = None, status = 200, statusText = ''OK''\<rparr>
         \<and> headers_get hs ''Access-Control-Allow-Methods'' =
             Some (or_else (headers_get (headers request) ''access-control-request-method'')
                     ''GET, POST, PUT, DELETE, OPTIONS'')
         \<and> headers_get hs ''Access-Control-Allow-Headers'' =
             (case headers_get (headers request) ''access-control-request-headers'' of
                None \<Rightarrow> headers_get (headers response) ''Access-Control-Allow-Headers''
              | Some v \<Rightarrow> if v = [] then headers_get (headers response) ''Access-Control-Allow-Headers''
                          else Some v)"
  using assms
  by (simp add: clientResponse_def Let_def new_Response_def reason_phrase_OK with_content_type_def
        setupCORSHeaders_def headers_get_set headers_get_delete lower_names split: option.splits)


text \<open>
  Claim C2 says that a preflight never reaches the target. The handler has one path behind
  the access check, and the call to the global \<open>fetch\<close> on it does not look at the
  method: the sample preflight is sent to the target as an \<open>OPTIONS\<close> request.
\<close>

theorem C2_preflight_reaches_target:
  "req_method (example_request ''OPTIONS'' [] example_query) = ''OPTIONS'' \<and>
   calls (fetch example_runtime no_lists (example_request ''OPTIONS'' [] example_query))
     = [(example_target, (example_request ''OPTIONS'' [] example_query)\<lparr>redirect := Follow\<rparr>)]"
  by (simp add: example_fetch forward_calls(1) [OF example_outbound_no_headers])
     (simp add: example_request_def)

lemma clientResponse_preflight_status:
  assumes "req_method request = ''OPTIONS''"
  shows "\<exists>r. clientResponse request response = Inr r \<and> status r = 200"
  using clientResponse_preflight [OF assms, of response] by auto

text \<open>
  Claim C2, amended. For a preflight whose target resolves and is allowed, and whose
  outbound request can be built, the target is reached: the handler makes exactly one
  call, to the resolved target, with the method \<open>OPTIONS\<close> and redirects followed. When
  that call fails the handler fails with the call's error and returns no response; when
  it returns, the handler's response is built from the returned one and has status 200.
\<close>

theorem C2_preflight_is_forwarded:
  assumes "req_method request = ''OPTIONS''"
    and "searchParams_get (searchParams (url request)) (ustr ''url'') = Some param"
    and "param \<noteq> []"
    and "length (searchParams (url request)) \<le> 1"
    and "decodeURIComponent param = Some decoded"
    and "new_URL rt decoded = Some targetUrl"
    and "isAllowedTarget targetUrl env"
    and "outboundRequest rt request = Inr newRequest"
  shows "calls (fetch rt env request) = [(targetUrl, newRequest)]
       \<and> req_method newRequest = ''OPTIONS'' \<and> redirect newRequest = Follow
       \<and> result (fetch rt env request) =
           (case global_fetch rt targetUrl newRequest of
              Inl e \<Rightarrow> Inl e
            | Inr response \<Rightarrow> clientResponse request response)
       \<and> (\<forall>e. global_fetch rt targetUrl newRequest = Inl e \<longrightarrow>
             result (fetch rt env request) = Inl e \<and> responseStatus (fetch rt env request) = None)
       \<and> (\<forall>response. global_fetch rt targetUrl newRequest = Inr response \<longrightarrow>
             result (fetch rt env request) = clientResponse request response
             \<and> responseStatus (fetch rt env request) = Some 200)"
proof -
  have f: "fetch rt env request = forward rt request targetUrl"
    using fetch_resolved [OF assms(2-6)] assms(7) by simp
  have c: "calls (fetch rt env request) = [(targetUrl, newRequest)]"
    and r: "result (fetch rt env request) =
           (case global_fetch rt targetUrl newRequest of
              Inl e \<Rightarrow> Inl e
            | Inr response \<Rightarrow> clientResponse request response)"
    using f forward_calls [OF assms(8), of targetUrl] by simp_all
  have k: "req_method newRequest = ''OPTIONS''" "redirect newRequest = Follow"
    using outboundRequest_keeps [OF assms(8)] assms(1) by simp_all
  have fail: "result (fetch rt env request) = Inl e \<and> responseStatus (fetch rt env request) = None"
    if "global_fetch rt targetUrl newRequest = Inl e" for e
    using r that by (simp add: responseStatus_def)
  have ok: "result (fetch rt env request) = clientResponse request response
            \<and> responseStatus (fetch rt env request) = Some 200"
    if "global_fetch rt targetUrl newRequest = Inr response" for response
  proof -
    from r that have "result (fetch rt env request) = clientResponse request response" by simp
    moreover obtain r' where "clientResponse request response = Inr r'" "status r' = 200"
      using clientResponse_preflight_status [OF assms(1)] by blast
    ultimately show ?thesis by (simp add: responseStatus_def)
  qed
  from c r k fail ok show ?thesis by blast
qed

theorem C2_preflight_is_forwarded_witness:
  "calls (fetch example_runtime no_lists (example_request ''OPTIONS'' [] example_query))
     = [(example_target, (example_request ''OPTIONS'' [] example_query)\<lparr>redirect := Follow\<rparr>)]
   \<and> result (fetch example_runtime no_lists (example_request ''OPTIONS'' [] example_query))
     = clientResponse (example_request ''OPTIONS'' [] example_query) example_origin_response
   \<and> responseStatus (fetch example_runtime no_lists (example_request ''OPTIONS'' [] example_query)) = Some 200
   \<and> result (fetch unreachable_runtime no_lists
        (example_request ''OPTIONS'' [] example_query)) = Inl FetchFailed
   \<and> calls (fetch unreachable_runtime no_lists
        (example_request ''OPTIONS'' [] example_query))
     = [(example_target, (example_request ''OPTIONS'' [] example_query)\<lparr>redirect := Follow\<rparr>)]"
proof -
  let ?R = "example_request ''OPTIONS'' [] example_query"
  let ?down = "unreachable_runtime"
  have a: "isAllowedTarget example_target no_lists"
    by (simp add: isAllowedTarget_def no_lists_def)
  have m: "req_method ?R = ''OPTIONS''" by (simp add: example_request_def)
  have p: "searchParams_get (searchParams (url ?R)) (ustr ''url'') = Some (ustr ''https%3A%2F%2Fexample.com%2F'')"
    by (simp add: example_request_def example_query_def searchParams_get_def)
  have ne: "ustr ''https%3A%2F%2Fexample.com%2F'' \<noteq> []" by (simp add: ustr_def)
  have l: "length (searchParams (url ?R)) \<le> 1" by (simp add: example_request_def example_query_def)
  have u: "new_URL example_runtime (ustr ''https://example.com/'') = Some example_target"
    and u': "new_URL ?down (ustr ''https://example.com/'') = Some example_target"
    by (simp_all add: example_runtime_def unreachable_runtime_def)
  have o: "outboundRequest example_runtime ?R = Inr (?R\<lparr>redirect := Follow\<rparr>)"
    by (rule example_outbound_no_headers)
  have o': "outboundRequest ?down ?R = Inr (?R\<lparr>redirect := Follow\<rparr>)"
    using o
    by (simp add: outboundRequest_def customHeaders_of_def example_request_def headers_get_def
          header_values_def)
  have g: "global_fetch example_runtime example_target (?R\<lparr>redirect := Follow\<rparr>) = Inr example_origin_response"
    by (simp add: example_runtime_def)
  have g': "global_fetch ?down example_target (?R\<lparr>redirect := Follow\<rparr>) = Inl FetchFailed"
    by (simp add: unreachable_runtime_def)
  note up = C2_preflight_is_forwarded [OF m p ne l decode_example u a o]
  note down = C2_preflight_is_forwarded [OF m p ne l decode_example u' a o']
  have 1: "calls (fetch example_runtime no_lists ?R) = [(example_target, ?R\<lparr>redirect := Follow\<rparr>)]"
    using up by (rule conjunct1)
  have 2: "result (fetch example_runtime no_lists ?R) = clientResponse ?R example_origin_response
           \<and> responseStatus (fetch example_runtime no_lists ?R) = Some 200"
    using up [THEN conjunct2, THEN conjunct2, THEN conjunct2, THEN conjunct2, THEN conjunct2, rule_format, OF g] .
  have 3: "calls (fetch ?down no_lists ?R) = [(example_target, ?R\<lparr>redirect := Follow\<rparr>)]"
    using down by (rule conjunct1)
  have 4: "result (fetch ?down no_lists ?R) = Inl FetchFailed"
    using down [THEN conjunct2, THEN conjunct2, THEN conjunct2, THEN conjunct2, THEN conjunct1, rule_format, OF g']
    by (rule conjunct1)
  from 1 2 3 4 show ?thesis by blast
qed

lemma example_outbound_empty_method:
  "outboundRequest example_runtime
      (example_request ''OPTIONS'' [(''Access-Control-Request-Method'', [])] example_query)
   = Inr ((example_request ''OPTIONS'' [(''Access-Control-Request-Method'', [])] example_query)
            \<lparr>headers := [(''access-control-request-method'', [])], redirect := Follow\<rparr>)"
  by code_simp

text \<open>
  Claim C5 gives \<open>Access-Control-Allow-Methods\<close> the value of the request's
  \<open>Access-Control-Request-Method\<close> header whenever that header is present. The handler
  takes the value with \<open>||\<close>: a header that is present with an empty value gives the
  default list, not the empty value.
\<close>

theorem C5_empty_request_method_gives_default:
  "headers_get (headers (example_request ''OPTIONS'' [(''Access-Control-Request-Method'', [])] example_query))
     ''Access-Control-Request-Method'' = Some []
   \<and> responseHeader (fetch example_runtime no_lists
        (example_request ''OPTIONS'' [(''Access-Control-Request-Method'', [])] example_query))
      ''Access-Control-Allow-Methods'' = Some ''GET, POST, PUT, DELETE, OPTIONS''"
proof -
  let ?R = "example_request ''OPTIONS'' [(''Access-Control-Request-Method'', [])] example_query"
  have o: "outboundRequest example_runtime ?R
             = Inr (?R\<lparr>headers := [(''access-control-request-method'', [])], redirect := Follow\<rparr>)"
    by (rule example_outbound_empty_method)
  have m: "req_method ?R = ''OPTIONS''" by (simp add: example_request_def)
  have g: "headers_get (headers ?R) ''access-control-request-method'' = Some []"
    by (simp add: example_request_def headers_get_def header_values_def lower_def lower_char_def)
  have g': "headers_get (headers ?R) ''Access-Control-Request-Method'' = Some []"
    by (simp add: example_request_def headers_get_def header_values_def lower_def lower_char_def)
  have "result (fetch example_runtime no_lists ?R) = clientResponse ?R example_origin_response"
    by (simp add: example_fetch forward_calls(2) [OF o]) (simp add: example_runtime_def)
  moreover obtain hs where "clientResponse ?R example_origin_response =
        Inr \<lparr>headers = hs, body = None, status = 200, statusText = ''OK''\<rparr>"
      and "headers_get hs ''Access-Control-Allow-Methods'' =
        Some (or_else (headers_get (headers ?R) ''access-control-request-method'') ''GET, POST, PUT, DELETE, OPTIONS'')"
    using clientResponse_preflight [OF m, of example_origin_response] by blast
  ultimately show ?thesis
    using g g' by (simp add: responseHeader_def or_else_def)
qed

text \<open>
  Claim C5, amended. For a preflight to an allowed target whose forwarded call returns a
  response, the handler's response has status 200, status text \<open>OK\<close> and no body. Its
  \<open>Access-Control-Allow-Methods\<close> is the request's \<open>Access-Control-Request-Method\<close> when
  that is present and not empty, and the default list otherwise. Its
  \<open>Access-Control-Allow-Headers\<close> is the request's \<open>Access-Control-Request-Headers\<close> when
  that is present and not empty; otherwise the handler does not set it, and it is as the
  origin's response had it.
\<close>

theorem C5_preflight_response:
  assumes "req_method request = ''OPTIONS''"
    and "searchParams_get (searchParams (url request)) (ustr ''url'') = Some param"
    and "param \<noteq> []"
    and "length (searchParams (url request)) \<le> 1"
    and "decodeURIComponent param = Some decoded"
    and "new_URL rt decoded = Some targetUrl"
    and "isAllowedTarget targetUrl env"
    and "outboundRequest rt request = Inr newRequest"
    and "global_fetch rt targetUrl newRequest = Inr response"
  shows "\<exists>r. result (fetch rt env request) = Inr r
           \<and> status r = 200 \<and> statusText r = ''OK'' \<and> body r = None
           \<and> headers_get (headers r) ''Access-Control-Allow-Methods'' =
               Some (case headers_get (headers request) ''Access-Control-Request-Method'' of
                       None \<Rightarrow> ''GET, POST, PUT, DELETE, OPTIONS''
                     | Some v \<Rightarrow> if v = [] then ''GET, POST, PUT, DELETE, OPTIONS'' else v)
           \<and> headers_get (headers r) ''Access-Control-Allow-Headers'' =
               (case headers_get (headers request) ''Access-Control-Request-Headers'' of
                  None \<Rightarrow> headers_get (headers response) ''Access-Control-Allow-Headers''
                | Some v \<Rightarrow> if v = [] then headers_get (headers response) ''Access-Control-Allow-Headers''
                            else Some v)"
proof -
  have "fetch rt env request = forward rt request targetUrl"
    using fetch_resolved [OF assms(2-6)] assms(7) by simp
  then have r: "result (fetch rt env request) = clientResponse request response"
    using forward_calls(2) [OF assms(8), of targetUrl] assms(9) by simp
  have n1: "headers_get hs ''Access-Control-Request-Method'' = headers_get hs ''access-control-request-method''" for hs
    by (simp add: headers_get_def lower_def lower_char_def)
  have n2: "headers_get hs ''Access-Control-Request-Headers'' = headers_get hs ''access-control-request-headers''" for hs
    by (simp add: headers_get_def lower_def lower_char_def)
  from clientResponse_preflight [OF assms(1), of response] r show ?thesis
    by (auto simp: n1 n2 or_else_def)
qed

lemma example_outbound_preflight:
  "outboundRequest example_runtime
      (example_request ''OPTIONS''
         [(''Access-Control-Request-Method'', ''PUT''), (''Access-Control-Request-Headers'', ''x-test'')]
         example_query)
   = Inr ((example_request ''OPTIONS''
         [(''Access-Control-Request-Method'', ''PUT''), (''Access-Control-Request-Headers'', ''x-test'')]
         example_query)
       \<lparr>headers := [(''access-control-request-headers'', ''x-test''), (''access-control-request-method'', ''PUT'')],
        redirect := Follow\<rparr>)"
  by code_simp

theorem C5_preflight_response_witness:
  "\<exists>r. result (fetch example_runtime no_lists
            (example_request ''OPTIONS''
               [(''Access-Control-Request-Method'', ''PUT''), (''Access-Control-Request-Headers'', ''x-test'')]
               example_query)) = Inr r
      \<and> status r = 200 \<and> statusText r = ''OK'' \<and> body r = None
      \<and> headers_get (headers r) ''Access-Control-Allow-Methods'' = Some ''PUT''
      \<and> headers_get (headers r) ''Access-Control-Allow-Headers'' = Some ''x-test''"
proof -
  let ?R = "example_request ''OPTIONS''
               [(''Access-Control-Request-Method'', ''PUT''), (''Access-Control-Request-Headers'', ''x-test'')]
               example_query"
  have o: "outboundRequest example_runtime ?R
             = Inr (?R\<lparr>headers := [(''access-control-request-headers'', ''x-test''),
                                     (''access-control-request-method'', ''PUT'')],
                      redirect := Follow\<rparr>)"
    by (rule example_outbound_preflight)
  have a: "isAllowedTarget example_target no_lists"
    by (simp add: isAllowedTarget_def no_lists_def)
  have m: "req_method ?R = ''OPTIONS''" by (simp add: example_request_def)
  have p: "searchParams_get (searchParams (url ?R)) (ustr ''url'') = Some (ustr ''https%3A%2F%2Fexample.com%2F'')"
    by (simp add: example_request_def example_query_def searchParams_get_def)
  have ne: "ustr ''https%3A%2F%2Fexample.com%2F'' \<noteq> []" by (simp add: ustr_def)
  have l: "length (searchParams (url ?R)) \<le> 1" by (simp add: example_request_def example_query_def)
  have u: "new_URL example_runtime (ustr ''https://example.com/'') = Some example_target"
    by (simp add: example_runtime_def)
  have g: "global_fetch example_runtime example_target newRequest = Inr example_origin_response"
    for newRequest
    by (simp add: example_runtime_def)
  have h1: "headers_get (headers ?R) ''Access-Control-Request-Method'' = Some ''PUT''"
    by (simp add: example_request_def headers_get_def header_values_def lower_def lower_char_def)
  have h2: "headers_get (headers ?R) ''Access-Control-Request-Headers'' = Some ''x-test''"
    by (simp add: example_request_def headers_get_def header_values_def lower_def lower_char_def)
  from C5_preflight_response [OF m p ne l decode_example u a o g] show ?thesis
    by (simp add: h1 h2)
qed

section \<open>The headers of the outbound request\<close>









































text \<open>
  Claim C1. After a failed parse \<open>customHeaders\<close> still holds the text of the header, and
  the loop over \<open>Object.entries(customHeaders)\<close> runs over the characters of that text:
  the request sent to the target has one more header for each character, named by its
  index. For the value \<open>{bad\<close> these are the headers \<open>0\<close> to \<open>3\<close>, next to the one header
  that the filter let through.
\<close>

theorem C1_malformed_override_adds_headers:
  "JSON_parse example_runtime ''{bad'' = None
   \<and> filteredHeaders_of (example_request ''GET'' [(''Accept'', ''*/*''), (''X-Custom-Headers'', ''{bad'')] example_query)
       = [(''accept'', JStr ''*/*'')]
   \<and> calls (fetch example_runtime no_lists
        (example_request ''GET'' [(''Accept'', ''*/*''), (''X-Custom-Headers'', ''{bad'')] example_query))
       = [(example_target,
           (example_request ''GET'' [(''Accept'', ''*/*''), (''X-Custom-Headers'', ''{bad'')] example_query)
             \<lparr>headers := [(''0'', ''{''), (''1'', ''b''), (''2'', ''a''), (''3'', ''d''), (''accept'', ''*/*'')],
              redirect := Follow\<rparr>)]"
proof -
  let ?R = "example_request ''GET'' [(''Accept'', ''*/*''), (''X-Custom-Headers'', ''{bad'')] example_query"
  have p: "JSON_parse example_runtime ''{bad'' = None"
    by (simp add: example_runtime_def)
  have f: "filteredHeaders_of ?R = [(''accept'', JStr ''*/*'')]"
    by code_simp
  have o: "outboundRequest example_runtime ?R
      = Inr (?R\<lparr>headers := [(''0'', ''{''), (''1'', ''b''), (''2'', ''a''), (''3'', ''d''), (''accept'', ''*/*'')],
               redirect := Follow\<rparr>)"
    by code_simp
  show ?thesis
    using p f by (simp add: example_fetch forward_calls(1) [OF o])
qed

section \<open>The exposed response headers\<close>

lemma clientResponse_exposure:
  assumes "clientResponse request response = Inr r"
  shows "headers_get (headers r) ''x-received-headers''
           = Some (JSON_stringify
               (foldl (\<lambda>obj kv. obj_set (fst kv) (snd kv) obj) [] (headers_entries (headers response))))"
    and "headers_get (headers r) ''Access-Control-Expose-Headers''
           = Some (join '','' (map fst (headers_entries (headers response)) @ [''x-received-headers'']))"
  using assms
  by (auto simp: clientResponse_def Let_def new_Response_def with_content_type_def
        headers_get_set lower_names split: if_splits)

text \<open>
  Claim C8. The names in \<open>Access-Control-Expose-Headers\<close> are those of the entries of the
  origin's headers, and \<open>x-received-headers\<close> is the JSON text of the object the entries
  were written into. An object holds one value for a name: of the two \<open>set-cookie\<close>
  entries of the sample origin only the second is in the JSON text, while the name is
  exposed twice.
\<close>

theorem C8_repeated_header_is_lost:
  \<open>headers_entries (headers example_origin_response)
     = [(''set-cookie'', ''a=1''), (''set-cookie'', ''b=2''), (''x-foo'', ''bar'')]
   \<and> responseHeader (fetch example_runtime no_lists (example_request ''GET'' [] example_query))
       ''x-received-headers'' = Some ''{"set-cookie":"b=2","x-foo":"bar"}''
   \<and> responseHeader (fetch example_runtime no_lists (example_request ''GET'' [] example_query))
       ''Access-Control-Expose-Headers'' = Some ''set-cookie,set-cookie,x-foo,x-received-headers''\<close>
proof -
  let ?R = "example_request ''GET'' [] example_query"
  have e: "headers_entries (headers example_origin_response)
     = [(''set-cookie'', ''a=1''), (''set-cookie'', ''b=2''), (''x-foo'', ''bar'')]"
    by code_simp
  have j: \<open>JSON_stringify (foldl (\<lambda>obj kv. obj_set (fst kv) (snd kv) obj) []
              [(''set-cookie'', ''a=1''), (''set-cookie'', ''b=2''), (''x-foo'', ''bar'')])
           = ''{"set-cookie":"b=2","x-foo":"bar"}''\<close>
    by code_simp
  have x: "join '','' (map fst [(''set-cookie'', ''a=1''), (''set-cookie'', ''b=2''), (''x-foo'', ''bar'')] @ [''x-received-headers''])
           = ''set-cookie,set-cookie,x-foo,x-received-headers''"
    by simp
  have "result (fetch example_runtime no_lists ?R) = clientResponse ?R example_origin_response"
    by (simp add: example_fetch forward_calls(2) [OF example_outbound_no_headers])
       (simp add: example_runtime_def)
  moreover obtain r where r: "clientResponse ?R example_origin_response = Inr r"
    by (simp add: clientResponse_def Let_def new_Response_def example_origin_response_def
          example_request_def reason_phrase_OK null_body_status_def)
  ultimately have "result (fetch example_runtime no_lists ?R) = Inr r"
    by simp
  with clientResponse_exposure [OF r, unfolded e j x] e show ?thesis
    by (simp add: responseHeader_def)
qed

section \<open>Allowed targets\<close>

text \<open>
  The page of the refusal has one header, the content type; a response built from an
  origin's response has the header \<open>x-received-headers\<close>.
\<close>

lemma notAllowedResponse_headers:
  "\<exists>r. notAllowedResponse request = Inr r \<and> headers r = [(''content-type'', ''text/plain;charset=UTF-8'')]"
  by (simp add: notAllowedResponse_def text_response reason_phrase_Forbidden null_body_status_def)

lemma clientResponse_not_refusal: "clientResponse request response \<noteq> notAllowedResponse request"
proof
  assume eq: "clientResponse request response = notAllowedResponse request"
  obtain r where r: "notAllowedResponse request = Inr r"
    and h: "headers r = [(''content-type'', ''text/plain;charset=UTF-8'')]"
    using notAllowedResponse_headers by blast
  from eq r have "clientResponse request response = Inr r" by simp
  from clientResponse_exposure(1) [OF this] have "headers_get (headers r) ''x-received-headers'' \<noteq> None"
    by simp
  moreover have "headers_get (headers r) ''x-received-headers'' = None"
    unfolding h by (simp add: headers_get_def header_values_def lower_def lower_char_def)
  ultimately show False by simp
qed

lemma forward_not_refusal: "result (forward rt request targetUrl) \<noteq> notAllowedResponse request"
proof -
  obtain r where r: "notAllowedResponse request = Inr r"
    using notAllowedResponse_status by blast
  show ?thesis
    using clientResponse_not_refusal [of request] r
    by (auto simp: forward_def split: sum.splits)
qed

text \<open>
  Claim C3, amended. When the target resolves, its hostname is in no configured deny list
  and it is in the allow list if one is configured, the decision is Allowed and the
  handler's answer is not its own 403 page; if moreover the outbound request can be built,
  the request is forwarded: exactly one call is made, to the resolved target, and the
  answer is built from the result of that call. Two missing lists and an empty deny list
  are among these cases; an empty allow list is not.
\<close>

theorem C3_allowed_unless_excluded:
  assumes "searchParams_get (searchParams (url request)) (ustr ''url'') = Some param"
    and "param \<noteq> []"
    and "length (searchParams (url request)) \<le> 1"
    and "decodeURIComponent param = Some decoded"
    and "new_URL rt decoded = Some targetUrl"
    and "\<forall>deny. BLACKLISTED_DOMAINS env = Some deny \<longrightarrow> hostname targetUrl \<notin> set deny"
    and "\<forall>allow. WHITELISTED_DOMAINS env = Some allow \<longrightarrow> hostname targetUrl \<in> set allow"
  shows "isAllowedTarget targetUrl env
       \<and> fetch rt env request = forward rt request targetUrl
       \<and> result (fetch rt env request) \<noteq> notAllowedResponse request
       \<and> (\<forall>newRequest. outboundRequest rt request = Inr newRequest \<longrightarrow>
             calls (fetch rt env request) = [(targetUrl, newRequest)]
           \<and> result (fetch rt env request) =
               (case global_fetch rt targetUrl newRequest of
                  Inl e \<Rightarrow> Inl e
                | Inr response \<Rightarrow> clientResponse request response))"
proof -
  have a: "isAllowedTarget targetUrl env"
    using assms(6,7) by (simp add: isAllowedTarget_iff)
  then have f: "fetch rt env request = forward rt request targetUrl"
    using fetch_resolved [OF assms(1-5)] by simp
  show ?thesis
    using a f forward_not_refusal [of rt request targetUrl] forward_calls [of rt request _ targetUrl]
    by simp
qed

theorem C3_allowed_unless_excluded_witness:
  "isAllowedTarget example_target \<lparr>WHITELISTED_DOMAINS = None, BLACKLISTED_DOMAINS = Some []\<rparr>
   \<and> calls (fetch example_runtime \<lparr>WHITELISTED_DOMAINS = None, BLACKLISTED_DOMAINS = Some []\<rparr>
        (example_request ''GET'' [] example_query))
      = [(example_target, (example_request ''GET'' [] example_query)\<lparr>redirect := Follow\<rparr>)]
   \<and> result (fetch example_runtime \<lparr>WHITELISTED_DOMAINS = None, BLACKLISTED_DOMAINS = Some []\<rparr>
        (example_request ''GET'' [] example_query))
      \<noteq> notAllowedResponse (example_request ''GET'' [] example_query)"
proof -
  let ?R = "example_request ''GET'' [] example_query"
  let ?E = "\<lparr>WHITELISTED_DOMAINS = None, BLACKLISTED_DOMAINS = Some []\<rparr>"
  have p: "searchParams_get (searchParams (url ?R)) (ustr ''url'') = Some (ustr ''https%3A%2F%2Fexample.com%2F'')"
    by (simp add: example_request_def example_query_def searchParams_get_def)
  have ne: "ustr ''https%3A%2F%2Fexample.com%2F'' \<noteq> []" by (simp add: ustr_def)
  have l: "length (searchParams (url ?R)) \<le> 1" by (simp add: example_request_def example_query_def)
  have u: "new_URL example_runtime (ustr ''https://example.com/'') = Some example_target"
    by (simp add: example_runtime_def)
  have d: "\<forall>deny. BLACKLISTED_DOMAINS ?E = Some deny \<longrightarrow> hostname example_target \<notin> set deny"
    by simp
  have w: "\<forall>allow. WHITELISTED_DOMAINS ?E = Some allow \<longrightarrow> hostname example_target \<in> set allow"
    by simp
  note t = C3_allowed_unless_excluded [OF p ne l decode_example u d w]
  have "calls (fetch example_runtime ?E ?R) = [(example_target, ?R\<lparr>redirect := Follow\<rparr>)]"
    using t [THEN conjunct2, THEN conjunct2, THEN conjunct2, rule_format, OF example_outbound_no_headers]
    by (rule conjunct1)
  with t [THEN conjunct1] t [THEN conjunct2, THEN conjunct2, THEN conjunct1]
  show ?thesis by (intro conjI)
qed

end
